theory Spec2Isabelle
  imports Complex_Main
begin

section \<open>Loan profitability simulator: the numeric engine\<close>

text \<open>
  The repository holds four revisions of one Svelte page. Three of them are embedded here:
  \<^item> the basic calculator (first script of \<^verbatim>\<open>src/unnamed/part_001\<close>), suffix \<open>_basic\<close>;
  \<^item> the deferral variant (first script of \<^verbatim>\<open>+page.svelte\<close>, also
    \<^verbatim>\<open>src/unnamed/part_000\<close>), with the source's names unchanged;
  \<^item> the full variant with insurance and inflation (second script of
    \<^verbatim>\<open>+page.svelte\<close>), suffix \<open>_full\<close>.

  A JavaScript \<^verbatim>\<open>number\<close> is modelled as an exact \<^typ>\<open>real\<close>: rounding, NaN and
  infinities of IEEE doubles are outside the model, so the theorems below keep to
  statements that do not rest on an exact cancellation (weak inequalities, strict ones
  with a margin, tolerances, absorbing zeros, identical sequences of operations).
  Every input is a \<^typ>\<open>real\<close>, also \<open>loanTermYears\<close>, \<open>deferralMonths\<close>,
  \<open>analysisYears\<close> and \<open>additionalYears\<close>: \<^verbatim>\<open>Math.max\<close> and \<^verbatim>\<open>Math.min\<close> round
  nothing, so a term of 2.5 years stays 2.5. The loop counters, which start at an integer
  and are incremented by one, are modelled as \<^typ>\<open>int\<close>.
\<close>

subsection \<open>Library functions of the host language\<close>

text \<open>
  \<^verbatim>\<open>Math.pow\<close> and \<^verbatim>\<open>Math.ceil\<close>. The power is the real power of a positive base: the
  code calls \<^verbatim>\<open>Math.pow(1 + monthlyRate, numberOfPayments)\<close> under the guard
  \<^verbatim>\<open>monthlyRate > 0\<close> only.
\<close>

definition Math_pow :: "real \<Rightarrow> real \<Rightarrow> real" where
  "Math_pow x y = x powr y"

definition Math_ceil :: "real \<Rightarrow> int" where
  "Math_ceil x = \<lceil>x\<rceil>"

text \<open>
  \<^verbatim>\<open>Array.prototype.findIndex\<close>: the index of the first element that satisfies the
  predicate, \<open>-1\<close> when there is none.
\<close>

fun findIndexFrom :: "('a \<Rightarrow> bool) \<Rightarrow> int \<Rightarrow> 'a list \<Rightarrow> int" where
  "findIndexFrom P i [] = -1"
| "findIndexFrom P i (x # xs) = (if P x then i else findIndexFrom P (i + 1) xs)"

definition findIndex :: "('a \<Rightarrow> bool) \<Rightarrow> 'a list \<Rightarrow> int" where
  "findIndex P xs = findIndexFrom P 0 xs"

text \<open>
  Truthiness of a value of type \<^verbatim>\<open>number | null\<close>, as tested by the markup's
  \<^verbatim>\<open>{#if breakEvenYear}\<close>: \<^verbatim>\<open>null\<close> and \<open>0\<close> are falsy.
\<close>

definition js_truthy :: "int option \<Rightarrow> bool" where
  "js_truthy v = (case v of None \<Rightarrow> False | Some n \<Rightarrow> n \<noteq> 0)"

subsection \<open>Inputs\<close>

datatype deferral_type = Complete | Partial

record loan_inputs =
  loanAmount :: real
  interestRate :: real
  loanTermYears :: real
  downPayment :: real

record invest_inputs = loan_inputs +
  deferralMonths :: real
  deferralType :: deferral_type
  investmentRate :: real
  investmentVolatility :: real

record deferral_inputs = invest_inputs +
  analysisYears :: real

record full_inputs = invest_inputs +
  insuranceCost :: real
  additionalYears :: real
  inflationRate :: real

subsection \<open>Quantities shared by the variants\<close>

definition principal :: "'a loan_inputs_scheme \<Rightarrow> real" where
  "principal p = loanAmount p - downPayment p"

definition monthlyRate :: "'a loan_inputs_scheme \<Rightarrow> real" where
  "monthlyRate p = interestRate p / 100 / 12"

text \<open>The capitalisation loop \<^verbatim>\<open>for (month = 0; month < deferralMonths; month++)\<close>.\<close>

function capitalizeLoop :: "real \<Rightarrow> real \<Rightarrow> int \<Rightarrow> real \<Rightarrow> real" where
  "capitalizeLoop r d month balance =
     (if of_int month < d then capitalizeLoop r d (month + 1) (balance * (1 + r)) else balance)"
  by pat_completeness auto
termination
  by (relation "measure (\<lambda>(r, d, month, balance). nat (\<lceil>d\<rceil> - month))")
    (auto simp: less_ceiling_iff)

declare capitalizeLoop.simps [simp del]

definition principalAfterDeferral :: "'a invest_inputs_scheme \<Rightarrow> real" where
  "principalAfterDeferral p =
     (let balance = loanAmount p - downPayment p
      in if deferralType p = Complete
         then capitalizeLoop (monthlyRate p) (deferralMonths p) 0 balance
         else balance)"

definition deferralInterestPaid :: "'a invest_inputs_scheme \<Rightarrow> real" where
  "deferralInterestPaid p =
     (if deferralType p = Partial
      then (loanAmount p - downPayment p) * monthlyRate p * deferralMonths p
      else 0)"

definition monthlyInvestmentRate :: "'a invest_inputs_scheme \<Rightarrow> real" where
  "monthlyInvestmentRate p = investmentRate p / 100 / 12"

subsection \<open>The basic calculator\<close>

definition numberOfPayments :: "'a loan_inputs_scheme \<Rightarrow> real" where
  "numberOfPayments p = loanTermYears p * 12"

definition monthlyPayment_basic :: "loan_inputs \<Rightarrow> real" where
  "monthlyPayment_basic p =
     (if principal p > 0 \<and> monthlyRate p > 0
      then (principal p * (monthlyRate p * Math_pow (1 + monthlyRate p) (numberOfPayments p)))
           / (Math_pow (1 + monthlyRate p) (numberOfPayments p) - 1)
      else 0)"

subsection \<open>The deferral variant\<close>

definition clamp :: "deferral_inputs \<Rightarrow> deferral_inputs" where
  "clamp p =
     (let loanAmount' = max 0 (min 10000000 (loanAmount p));
          downPayment' = max 0 (min loanAmount' (downPayment p));
          interestRate' = max 0 (min 20 (interestRate p));
          loanTermYears' = max 1 (min 40 (loanTermYears p));
          deferralMonths' = max 0 (min 60 (deferralMonths p));
          investmentRate' = max 0 (min 30 (investmentRate p));
          investmentVolatility' = max 0 (min 100 (investmentVolatility p));
          analysisYears' = max loanTermYears' (min 60 (analysisYears p))
      in \<lparr> loanAmount = loanAmount', interestRate = interestRate',
           loanTermYears = loanTermYears', downPayment = downPayment',
           deferralMonths = deferralMonths', deferralType = deferralType p,
           investmentRate = investmentRate', investmentVolatility = investmentVolatility',
           analysisYears = analysisYears' \<rparr>)"

definition monthlyPayment :: "deferral_inputs \<Rightarrow> real" where
  "monthlyPayment p =
     (if principalAfterDeferral p > 0 \<and> monthlyRate p > 0
      then (principalAfterDeferral p
              * (monthlyRate p * Math_pow (1 + monthlyRate p) (numberOfPayments p)))
           / (Math_pow (1 + monthlyRate p) (numberOfPayments p) - 1)
      else 0)"

definition totalPayment :: "deferral_inputs \<Rightarrow> real" where
  "totalPayment p = monthlyPayment p * numberOfPayments p"

definition totalInterest :: "deferral_inputs \<Rightarrow> real" where
  "totalInterest p = totalPayment p - principal p"

definition totalLoanMonths :: "deferral_inputs \<Rightarrow> real" where
  "totalLoanMonths p = deferralMonths p + numberOfPayments p"

definition totalLoanYears :: "deferral_inputs \<Rightarrow> int" where
  "totalLoanYears p = Math_ceil (totalLoanMonths p / 12)"

record YearlyData =
  year :: int
  investmentValue :: real
  loanBalance :: real
  totalPaid :: real
  netPosition :: real
  isLoanActive :: bool
  isDeferralPeriod :: bool

text \<open>The variables that the simulation loop mutates.\<close>

record sim_vars =
  v_investmentValue :: real
  v_loanBalance :: real
  v_totalPaid :: real
  v_totalMonthsElapsed :: int

text \<open>One pass through the body of the inner (monthly) loop.\<close>

definition monthStep :: "deferral_inputs \<Rightarrow> sim_vars \<Rightarrow> sim_vars" where
  "monthStep p s =
     (let totalMonthsElapsed = v_totalMonthsElapsed s + 1;
          isDeferralMonth = of_int totalMonthsElapsed \<le> deferralMonths p;
          isRepaymentMonth = of_int totalMonthsElapsed > deferralMonths p
                             \<and> of_int totalMonthsElapsed \<le> totalLoanMonths p;
          investmentValue' = v_investmentValue s * (1 + monthlyInvestmentRate p)
      in if isDeferralMonth then
           (if deferralType p = Complete then
              \<lparr> v_investmentValue = investmentValue',
                v_loanBalance = v_loanBalance s * (1 + monthlyRate p),
                v_totalPaid = v_totalPaid s,
                v_totalMonthsElapsed = totalMonthsElapsed \<rparr>
            else
              (let interestOnly = v_loanBalance s * monthlyRate p
               in \<lparr> v_investmentValue = investmentValue' + interestOnly,
                    v_loanBalance = v_loanBalance s,
                    v_totalPaid = v_totalPaid s + interestOnly,
                    v_totalMonthsElapsed = totalMonthsElapsed \<rparr>))
         else if isRepaymentMonth then
           (let interestPayment = v_loanBalance s * monthlyRate p;
                principalPayment = monthlyPayment p - interestPayment
            in \<lparr> v_investmentValue = investmentValue' + monthlyPayment p,
                 v_loanBalance = max 0 (v_loanBalance s - principalPayment),
                 v_totalPaid = v_totalPaid s + monthlyPayment p,
                 v_totalMonthsElapsed = totalMonthsElapsed \<rparr>)
         else
           \<lparr> v_investmentValue = investmentValue',
             v_loanBalance = v_loanBalance s,
             v_totalPaid = v_totalPaid s,
             v_totalMonthsElapsed = totalMonthsElapsed \<rparr>)"

text \<open>The record pushed at the end of a year.\<close>

definition snapshot :: "deferral_inputs \<Rightarrow> int \<Rightarrow> sim_vars \<Rightarrow> YearlyData" where
  "snapshot p yr s =
     (let isLoanActive' = of_int (v_totalMonthsElapsed s) \<le> totalLoanMonths p;
          isDeferralPeriod' = of_int (v_totalMonthsElapsed s) \<le> deferralMonths p
      in \<lparr> year = yr,
           investmentValue = v_investmentValue s,
           loanBalance = (if isLoanActive' then v_loanBalance s else 0),
           totalPaid = v_totalPaid s,
           netPosition = v_investmentValue s - v_totalPaid s,
           isLoanActive = isLoanActive',
           isDeferralPeriod = isDeferralPeriod' \<rparr>)"

text \<open>The outer loop \<^verbatim>\<open>for (year = 1; year <= analysisYears; year++)\<close>.\<close>

function yearLoop :: "deferral_inputs \<Rightarrow> int \<Rightarrow> sim_vars \<Rightarrow> YearlyData list" where
  "yearLoop p yr s =
     (if of_int yr \<le> analysisYears p
      then (let s' = (monthStep p ^^ 12) s
            in snapshot p yr s' # yearLoop p (yr + 1) s')
      else [])"
  by pat_completeness auto
termination
  by (relation "measure (\<lambda>(p, yr, s). nat (\<lfloor>analysisYears p\<rfloor> + 1 - yr))")
    (auto simp: le_floor_iff)

declare yearLoop.simps [simp del]

definition initialVars :: "deferral_inputs \<Rightarrow> sim_vars" where
  "initialVars p =
     \<lparr> v_investmentValue = downPayment p,
       v_loanBalance = principal p,
       v_totalPaid = downPayment p,
       v_totalMonthsElapsed = 0 \<rparr>"

definition yearlyData :: "deferral_inputs \<Rightarrow> YearlyData list" where
  "yearlyData p = yearLoop p 1 (initialVars p)"

text \<open>
  The callback of \<^verbatim>\<open>findIndex\<close>, and \<^verbatim>\<open>findIndex(...) + 1 || null\<close>: the sum is
  replaced by \<^verbatim>\<open>null\<close> when it is 0.
\<close>

definition breakEvenTest :: "deferral_inputs \<Rightarrow> YearlyData \<Rightarrow> bool" where
  "breakEvenTest p d =
     (let investmentReturns = investmentValue d - totalPaid d
      in investmentReturns \<ge> totalInterest p)"

definition breakEvenYear :: "deferral_inputs \<Rightarrow> int option" where
  "breakEvenYear p =
     (let n = findIndex (breakEvenTest p) (yearlyData p) + 1
      in if n = 0 then None else Some n)"

subsection \<open>The full variant (insurance and inflation)\<close>

definition clamp_full :: "full_inputs \<Rightarrow> full_inputs" where
  "clamp_full p =
     (let loanAmount' = max 0 (min 10000000 (loanAmount p));
          downPayment' = max 0 (min loanAmount' (downPayment p));
          interestRate' = max 0 (min 20 (interestRate p));
          loanTermYears' = max 1 (min 40 (loanTermYears p));
          deferralMonths' = max 0 (min (loanTermYears' * 12 - 1) (deferralMonths p));
          insuranceCost' = max 0 (min 10000 (insuranceCost p));
          investmentRate' = max 0 (min 30 (investmentRate p));
          investmentVolatility' = max 0 (min 100 (investmentVolatility p));
          additionalYears' = max 0 (min 30 (additionalYears p));
          inflationRate' = max 0 (min 20 (inflationRate p))
      in \<lparr> loanAmount = loanAmount', interestRate = interestRate',
           loanTermYears = loanTermYears', downPayment = downPayment',
           deferralMonths = deferralMonths', deferralType = deferralType p,
           investmentRate = investmentRate', investmentVolatility = investmentVolatility',
           insuranceCost = insuranceCost', additionalYears = additionalYears',
           inflationRate = inflationRate' \<rparr>)"

definition analysisYears_full :: "full_inputs \<Rightarrow> real" where
  "analysisYears_full p = loanTermYears p + additionalYears p"

definition totalLoanMonths_full :: "full_inputs \<Rightarrow> real" where
  "totalLoanMonths_full p = loanTermYears p * 12"

definition numberOfPayments_full :: "full_inputs \<Rightarrow> real" where
  "numberOfPayments_full p = max 1 (totalLoanMonths_full p - deferralMonths p)"

definition monthlyPayment_full :: "full_inputs \<Rightarrow> real" where
  "monthlyPayment_full p =
     (if principalAfterDeferral p > 0 \<and> monthlyRate p > 0
      then (principalAfterDeferral p
              * (monthlyRate p * Math_pow (1 + monthlyRate p) (numberOfPayments_full p)))
           / (Math_pow (1 + monthlyRate p) (numberOfPayments_full p) - 1)
      else 0)"

definition totalPayment_full :: "full_inputs \<Rightarrow> real" where
  "totalPayment_full p = monthlyPayment_full p * numberOfPayments_full p"

definition totalInterest_full :: "full_inputs \<Rightarrow> real" where
  "totalInterest_full p = totalPayment_full p - principal p + deferralInterestPaid p"

definition totalInsuranceCost :: "full_inputs \<Rightarrow> real" where
  "totalInsuranceCost p = insuranceCost p * totalLoanMonths_full p"

definition totalLoanYears_full :: "full_inputs \<Rightarrow> int" where
  "totalLoanYears_full p = Math_ceil (totalLoanMonths_full p / 12)"

definition monthlyInflationRate :: "full_inputs \<Rightarrow> real" where
  "monthlyInflationRate p = inflationRate p / 100 / 12"

record YearlyData_full = YearlyData +
  investmentValueReal :: real
  interestEarned :: real
  interestEarnedReal :: real
  totalPaidReal :: real
  totalBorrowingCost :: real
  totalBorrowingCostReal :: real
  netPositionReal :: real

record sim_vars_full = sim_vars +
  v_totalBorrowingCost :: real
  v_cumulativeInflationFactor :: real

text \<open>
  One pass through the body of the monthly loop. The insurance is added first
  (\<open>paid\<close>, \<open>cost\<close>), then the deferral or repayment branch adds to the same variables.
\<close>

definition monthStep_full :: "full_inputs \<Rightarrow> sim_vars_full \<Rightarrow> sim_vars_full" where
  "monthStep_full p s =
     (let totalMonthsElapsed = v_totalMonthsElapsed s + 1;
          isDeferralMonth = of_int totalMonthsElapsed \<le> deferralMonths p;
          isRepaymentMonth = of_int totalMonthsElapsed > deferralMonths p
                             \<and> of_int totalMonthsElapsed \<le> totalLoanMonths_full p;
          isLoanActiveMonth = of_int totalMonthsElapsed \<le> totalLoanMonths_full p;
          cumulativeInflationFactor = v_cumulativeInflationFactor s * (1 + monthlyInflationRate p);
          investmentValue' = v_investmentValue s * (1 + monthlyInvestmentRate p);
          paid = (if isLoanActiveMonth then v_totalPaid s + insuranceCost p else v_totalPaid s);
          cost = (if isLoanActiveMonth then v_totalBorrowingCost s + insuranceCost p
                  else v_totalBorrowingCost s)
      in if isDeferralMonth then
           (if deferralType p = Complete then
              \<lparr> v_investmentValue = investmentValue',
                v_loanBalance = v_loanBalance s * (1 + monthlyRate p),
                v_totalPaid = paid,
                v_totalMonthsElapsed = totalMonthsElapsed,
                v_totalBorrowingCost = cost,
                v_cumulativeInflationFactor = cumulativeInflationFactor \<rparr>
            else
              (let interestOnly = v_loanBalance s * monthlyRate p
               in \<lparr> v_investmentValue = investmentValue',
                    v_loanBalance = v_loanBalance s,
                    v_totalPaid = paid + interestOnly,
                    v_totalMonthsElapsed = totalMonthsElapsed,
                    v_totalBorrowingCost = cost + interestOnly,
                    v_cumulativeInflationFactor = cumulativeInflationFactor \<rparr>))
         else if isRepaymentMonth then
           (let interestPayment = v_loanBalance s * monthlyRate p;
                principalPayment = monthlyPayment_full p - interestPayment
            in \<lparr> v_investmentValue = investmentValue',
                 v_loanBalance = max 0 (v_loanBalance s - principalPayment),
                 v_totalPaid = paid + monthlyPayment_full p,
                 v_totalMonthsElapsed = totalMonthsElapsed,
                 v_totalBorrowingCost = cost + interestPayment,
                 v_cumulativeInflationFactor = cumulativeInflationFactor \<rparr>)
         else
           \<lparr> v_investmentValue = investmentValue',
             v_loanBalance = v_loanBalance s,
             v_totalPaid = paid,
             v_totalMonthsElapsed = totalMonthsElapsed,
             v_totalBorrowingCost = cost,
             v_cumulativeInflationFactor = cumulativeInflationFactor \<rparr>)"

text \<open>The year-0 record pushed before the loop.\<close>

definition yearZero :: "full_inputs \<Rightarrow> YearlyData_full" where
  "yearZero p =
     \<lparr> year = 0,
       investmentValue = principal p,
       loanBalance = principal p,
       totalPaid = 0,
       netPosition = principal p,
       isLoanActive = True,
       isDeferralPeriod = (deferralMonths p > 0),
       investmentValueReal = principal p,
       interestEarned = 0,
       interestEarnedReal = 0,
       totalPaidReal = 0,
       totalBorrowingCost = 0,
       totalBorrowingCostReal = 0,
       netPositionReal = principal p \<rparr>"

text \<open>The record pushed at the end of a year of the loop.\<close>

definition snapshot_full :: "full_inputs \<Rightarrow> int \<Rightarrow> sim_vars_full \<Rightarrow> YearlyData_full" where
  "snapshot_full p yr s =
     (let isLoanActive' = of_int (v_totalMonthsElapsed s) \<le> totalLoanMonths_full p;
          isDeferralPeriod' = of_int (v_totalMonthsElapsed s) \<le> deferralMonths p;
          interestEarned' = v_investmentValue s - principal p;
          investmentValueReal' = v_investmentValue s / v_cumulativeInflationFactor s;
          totalPaidReal' = v_totalPaid s / v_cumulativeInflationFactor s;
          totalBorrowingCostReal' = v_totalBorrowingCost s / v_cumulativeInflationFactor s;
          interestEarnedReal' = investmentValueReal' - principal p
      in \<lparr> year = yr,
           investmentValue = v_investmentValue s,
           loanBalance = (if isLoanActive' then v_loanBalance s else 0),
           totalPaid = v_totalPaid s,
           netPosition = v_investmentValue s - v_totalPaid s,
           isLoanActive = isLoanActive',
           isDeferralPeriod = isDeferralPeriod',
           investmentValueReal = investmentValueReal',
           interestEarned = interestEarned',
           interestEarnedReal = interestEarnedReal',
           totalPaidReal = totalPaidReal',
           totalBorrowingCost = v_totalBorrowingCost s,
           totalBorrowingCostReal = totalBorrowingCostReal',
           netPositionReal = investmentValueReal' - totalPaidReal' \<rparr>)"

function yearLoop_full :: "full_inputs \<Rightarrow> int \<Rightarrow> sim_vars_full \<Rightarrow> YearlyData_full list" where
  "yearLoop_full p yr s =
     (if of_int yr \<le> analysisYears_full p
      then (let s' = (monthStep_full p ^^ 12) s
            in snapshot_full p yr s' # yearLoop_full p (yr + 1) s')
      else [])"
  by pat_completeness auto
termination
  by (relation "measure (\<lambda>(p, yr, s). nat (\<lfloor>analysisYears_full p\<rfloor> + 1 - yr))")
    (auto simp: le_floor_iff)

declare yearLoop_full.simps [simp del]

definition initialVars_full :: "full_inputs \<Rightarrow> sim_vars_full" where
  "initialVars_full p =
     \<lparr> v_investmentValue = principal p,
       v_loanBalance = principal p,
       v_totalPaid = 0,
       v_totalMonthsElapsed = 0,
       v_totalBorrowingCost = 0,
       v_cumulativeInflationFactor = 1 \<rparr>"

definition yearlyData_full :: "full_inputs \<Rightarrow> YearlyData_full list" where
  "yearlyData_full p = yearZero p # yearLoop_full p 1 (initialVars_full p)"

definition finalInvestmentValue_full :: "full_inputs \<Rightarrow> real" where
  "finalInvestmentValue_full p =
     (if length (yearlyData_full p) > 0 then investmentValue (last (yearlyData_full p)) else 0)"

definition totalLoanBorrowingCost :: "full_inputs \<Rightarrow> real" where
  "totalLoanBorrowingCost p = totalInterest_full p + totalInsuranceCost p"

text \<open>
  The callback of \<^verbatim>\<open>find\<close>, and \<^verbatim>\<open>found ? found.year : null\<close>: a record that was
  found is an object, hence truthy.
\<close>

definition breakEvenTest_full :: "full_inputs \<Rightarrow> YearlyData_full \<Rightarrow> bool" where
  "breakEvenTest_full p d = (interestEarned d \<ge> totalLoanBorrowingCost p)"

definition breakEvenYear_full :: "full_inputs \<Rightarrow> int option" where
  "breakEvenYear_full p =
     (case find (breakEvenTest_full p) (yearlyData_full p) of
        None \<Rightarrow> None
      | Some found \<Rightarrow> Some (year found))"

text \<open>
  \<^verbatim>\<open>scenarioCalculation(rate)\<close>: the outer loop over the years, whose body runs the
  twelve monthly multiplications.
\<close>

function scenarioLoop_full :: "full_inputs \<Rightarrow> real \<Rightarrow> int \<Rightarrow> real \<Rightarrow> real" where
  "scenarioLoop_full p rate yr v =
     (if of_int yr \<le> analysisYears_full p
      then scenarioLoop_full p rate (yr + 1) (((\<lambda>x. x * (1 + rate / 100 / 12)) ^^ 12) v)
      else v)"
  by pat_completeness auto
termination
  by (relation "measure (\<lambda>(p, rate, yr, v). nat (\<lfloor>analysisYears_full p\<rfloor> + 1 - yr))")
    (auto simp: le_floor_iff)

declare scenarioLoop_full.simps [simp del]

definition scenarioCalculation_full :: "full_inputs \<Rightarrow> real \<Rightarrow> real" where
  "scenarioCalculation_full p rate = scenarioLoop_full p rate 1 (principal p)"

subsection \<open>Auxiliary notions and concrete inputs\<close>

text \<open>
  The annuity formula that the three \<open>monthlyPayment\<close> definitions spell out, as a
  function of the amortised amount, the monthly rate and the number of payments.
\<close>

definition annuity :: "real \<Rightarrow> real \<Rightarrow> real \<Rightarrow> real" where
  "annuity P r n = (P * (r * Math_pow (1 + r) n)) / (Math_pow (1 + r) n - 1)"

text \<open>
  What one pass of the monthly loop does to the pair of the elapsed months and the loan
  balance, as a function of the monthly rate \<open>r\<close>, the monthly payment \<open>P\<close>, whether the
  deferral capitalises (\<open>cap\<close>), the deferral months \<open>d\<close> and the total loan months \<open>T\<close>.
  Both \<open>monthStep\<close> and \<open>monthStep_full\<close> act on this pair in this way (lemmas
  \<open>monthStep_balance\<close> and \<open>monthStep_full_balance\<close>).
\<close>

definition balanceStep ::
  "real \<Rightarrow> real \<Rightarrow> bool \<Rightarrow> real \<Rightarrow> real \<Rightarrow> int \<times> real \<Rightarrow> int \<times> real" where
  "balanceStep r P cap d T mb =
     (let m' = fst mb + 1; B = snd mb
      in if of_int m' \<le> d then (if cap then (m', B * (1 + r)) else (m', B))
         else if of_int m' > d \<and> of_int m' \<le> T then (m', max 0 (B - (P - B * r)))
         else (m', B))"




text \<open>The input of the specification's worked example (the values of \<^verbatim>\<open>resetValues\<close>).\<close>

definition example_basic :: loan_inputs where
  "example_basic =
     \<lparr> loanAmount = 200000, interestRate = 4.5, loanTermYears = 30, downPayment = 40000 \<rparr>"

text \<open>The constant \<^verbatim>\<open>DEFAULTS\<close> of the deferral variant and of the full variant.\<close>

definition DEFAULTS :: deferral_inputs where
  "DEFAULTS =
     \<lparr> loanAmount = 200000, interestRate = 4.5, loanTermYears = 30, downPayment = 40000,
       deferralMonths = 12, deferralType = Complete, investmentRate = 7.0,
       investmentVolatility = 3, analysisYears = 40 \<rparr>"

definition DEFAULTS_full :: full_inputs where
  "DEFAULTS_full =
     \<lparr> loanAmount = 200000, interestRate = 4.5, loanTermYears = 30, downPayment = 40000,
       deferralMonths = 12, deferralType = Complete, investmentRate = 7.0,
       investmentVolatility = 3, insuranceCost = 30, additionalYears = 10,
       inflationRate = 2.5 \<rparr>"

text \<open>Small inputs on which the definitions are evaluated: a one-year loan of 1200.\<close>

definition small_basic :: "real \<Rightarrow> loan_inputs" where
  "small_basic rate =
     \<lparr> loanAmount = 1200, interestRate = rate, loanTermYears = 1, downPayment = 0 \<rparr>"

definition small_deferral :: "real \<Rightarrow> real \<Rightarrow> deferral_inputs" where
  "small_deferral rate d =
     \<lparr> loanAmount = 1200, interestRate = rate, loanTermYears = 1, downPayment = 0,
       deferralMonths = d, deferralType = Complete, investmentRate = 0,
       investmentVolatility = 0, analysisYears = 1 \<rparr>"

definition small_full :: "real \<Rightarrow> real \<Rightarrow> full_inputs" where
  "small_full rate d =
     \<lparr> loanAmount = 1200, interestRate = rate, loanTermYears = 1, downPayment = 0,
       deferralMonths = d, deferralType = Complete, investmentRate = 0,
       investmentVolatility = 0, insuranceCost = 0, additionalYears = 0,
       inflationRate = 0 \<rparr>"

section \<open>Auxiliary lemmas\<close>

subsection \<open>Powers, the capitalisation loop and the annuity formula\<close>

lemma Math_pow_nat: "0 < x \<Longrightarrow> Math_pow x (of_nat n) = x ^ n"
  by (simp add: Math_pow_def powr_realpow)

text \<open>
  The capitalisation loop runs once for each integer \<open>month\<close> with \<open>month < d\<close>, that is
  \<open>\<lceil>d\<rceil>\<close> times from 0.
\<close>

lemma capitalizeLoop_eq:
  "capitalizeLoop r d month balance = balance * (1 + r) ^ nat (\<lceil>d\<rceil> - month)"
proof (induction r d month balance rule: capitalizeLoop.induct)
  case (1 r d month balance)
  show ?case
  proof (cases "of_int month < d")
    case True
    then have "month < \<lceil>d\<rceil>" by (simp add: less_ceiling_iff)
    then have "nat (\<lceil>d\<rceil> - month) = Suc (nat (\<lceil>d\<rceil> - (month + 1)))" by simp
    with 1 True show ?thesis
      by (subst capitalizeLoop.simps) (simp add: mult.assoc)
  next
    case False
    then have "\<not> month < \<lceil>d\<rceil>" by (simp add: less_ceiling_iff)
    with False show ?thesis by (subst capitalizeLoop.simps) simp
  qed
qed

lemma principalAfterDeferral_eq:
  "principalAfterDeferral p =
     (if deferralType p = Complete
      then principal p * (1 + monthlyRate p) ^ nat \<lceil>deferralMonths p\<rceil> else principal p)"
  by (simp add: principalAfterDeferral_def capitalizeLoop_eq principal_def)

lemma principalAfterDeferral_zero: "principal p = 0 \<Longrightarrow> principalAfterDeferral p = 0"
  by (simp add: principalAfterDeferral_eq)


lemma pow_gt_one:
  fixes r :: real
  assumes "0 < r" and "1 \<le> n"
  shows "1 < Math_pow (1 + r) n"
  using assms by (simp add: Math_pow_def)

lemma pow_mono:
  fixes r :: real
  assumes "0 \<le> r" and "0 \<le> m" and "m \<le> n"
  shows "Math_pow (1 + r) m \<le> Math_pow (1 + r) n"
  using assms unfolding Math_pow_def by (intro powr_mono) auto

lemma annuity_alt:
  assumes "0 < r" and "1 \<le> n"
  shows "annuity P r n = P * r * (1 + 1 / (Math_pow (1 + r) n - 1))"
proof -
  have "0 < Math_pow (1 + r) n - 1" using pow_gt_one [OF assms] by simp
  then show ?thesis by (simp add: annuity_def field_simps)
qed



lemma annuity_antimono:
  assumes r: "0 < r" and m: "1 \<le> m" and mn: "m \<le> n" and P: "0 \<le> P"
  shows "annuity P r n \<le> annuity P r m"
proof -
  have n: "1 \<le> n" using m mn by simp
  have pm: "0 < Math_pow (1 + r) m - 1" using pow_gt_one [OF r m] by simp
  have "Math_pow (1 + r) m \<le> Math_pow (1 + r) n" using r m mn by (intro pow_mono) auto
  then have "1 / (Math_pow (1 + r) n - 1) \<le> 1 / (Math_pow (1 + r) m - 1)"
    using pm by (intro divide_left_mono) (auto intro: mult_pos_pos)
  then have "P * r * (1 + 1 / (Math_pow (1 + r) n - 1)) \<le> P * r * (1 + 1 / (Math_pow (1 + r) m - 1))"
    using r P by (intro mult_left_mono) auto
  then show ?thesis by (simp only: annuity_alt [OF r m] annuity_alt [OF r n])
qed

lemma annuity_strict_mono_principal:
  assumes "0 < r" and "1 \<le> n" and "P < Q"
  shows "annuity P r n < annuity Q r n"
proof -
  have "0 < r * (1 + 1 / (Math_pow (1 + r) n - 1))"
    using pow_gt_one [OF assms(1,2)] assms(1) by (intro mult_pos_pos add_pos_pos) auto
  then have "P * (r * (1 + 1 / (Math_pow (1 + r) n - 1))) < Q * (r * (1 + 1 / (Math_pow (1 + r) n - 1)))"
    using assms(3) by (intro mult_strict_right_mono) auto
  then show ?thesis by (simp only: annuity_alt [OF assms(1,2)] mult.assoc)
qed

lemma monthlyPayment_basic_annuity:
  "monthlyPayment_basic p =
     (if principal p > 0 \<and> monthlyRate p > 0
      then annuity (principal p) (monthlyRate p) (numberOfPayments p) else 0)"
  by (simp add: monthlyPayment_basic_def annuity_def)

lemma monthlyPayment_annuity:
  "monthlyPayment p =
     (if principalAfterDeferral p > 0 \<and> monthlyRate p > 0
      then annuity (principalAfterDeferral p) (monthlyRate p) (numberOfPayments p) else 0)"
  by (simp add: monthlyPayment_def annuity_def)

lemma monthlyPayment_full_annuity:
  "monthlyPayment_full p =
     (if principalAfterDeferral p > 0 \<and> monthlyRate p > 0
      then annuity (principalAfterDeferral p) (monthlyRate p) (numberOfPayments_full p) else 0)"
  by (simp add: monthlyPayment_full_def annuity_def)

subsection \<open>Interval bounds for the growth factor of the worked example\<close>

text \<open>
  \<open>(803 / 800) ^ 360\<close> is bounded by repeated squaring on ten-digit intervals
  (\<open>360 = 256 + 64 + 32 + 8\<close>).
\<close>

lemma sq_bounds:
  fixes x :: real
  assumes "l \<le> x \<and> x \<le> u" and "0 \<le> l" and "l' \<le> l * l" and "u * u \<le> u'"
  shows "l' \<le> x\<^sup>2 \<and> x\<^sup>2 \<le> u'"
proof -
  have "l * l \<le> x * x" using assms by (intro mult_mono) auto
  moreover have "x * x \<le> u * u" using assms by (intro mult_mono) auto
  ultimately show ?thesis using assms by (simp add: power2_eq_square)
qed

lemma mul_bounds:
  fixes x y :: real
  assumes "l1 \<le> x \<and> x \<le> u1" and "l2 \<le> y \<and> y \<le> u2" and "0 \<le> l1" and "0 \<le> l2"
    and "l' \<le> l1 * l2" and "u1 * u2 \<le> u'"
  shows "l' \<le> x * y \<and> x * y \<le> u'"
proof -
  have "l1 * l2 \<le> x * y" using assms by (intro mult_mono) auto
  moreover have "x * y \<le> u1 * u2" using assms by (intro mult_mono) auto
  ultimately show ?thesis using assms by simp
qed

lemma growth_factor_360:
  fixes q :: real
  assumes q: "q = 803 / 800"
  shows "(3847698021 / 1000000000) \<le> q ^ 360 \<and> q ^ 360 \<le> (38476980931 / 10000000000)"
proof -
  have b0: "803 / 800 \<le> q ^ 1 \<and> q ^ 1 \<le> 803 / 800" using q by simp
  have "(644809 / 640000) \<le> (q ^ 1)\<^sup>2 \<and> (q ^ 1)\<^sup>2 \<le> (644809 / 640000)"
    by (rule sq_bounds [OF b0]) simp_all
  then have b1: "(644809 / 640000) \<le> q ^ 2 \<and> q ^ 2 \<le> (644809 / 640000)"
    by (simp flip: power_mult)
  have "(10150845861 / 10000000000) \<le> (q ^ 2)\<^sup>2 \<and> (q ^ 2)\<^sup>2 \<le> (5075422931 / 5000000000)"
    by (rule sq_bounds [OF b1]) simp_all
  then have b2: "(10150845861 / 10000000000) \<le> q ^ 4 \<and> q ^ 4 \<le> (5075422931 / 5000000000)"
    by (simp flip: power_mult)
  have "(10303967169 / 10000000000) \<le> (q ^ 4)\<^sup>2 \<and> (q ^ 4)\<^sup>2 \<le> (2575991793 / 2500000000)"
    by (rule sq_bounds [OF b2]) simp_all
  then have b3: "(10303967169 / 10000000000) \<le> q ^ 8 \<and> q ^ 8 \<le> (2575991793 / 2500000000)"
    by (simp flip: power_mult)
  have "(10617173941 / 10000000000) \<le> (q ^ 8)\<^sup>2 \<and> (q ^ 8)\<^sup>2 \<le> (10617173949 / 10000000000)"
    by (rule sq_bounds [OF b3]) simp_all
  then have b4: "(10617173941 / 10000000000) \<le> q ^ 16 \<and> q ^ 16 \<le> (10617173949 / 10000000000)"
    by (simp flip: power_mult)
  have "(11272438249 / 10000000000) \<le> (q ^ 16)\<^sup>2 \<and> (q ^ 16)\<^sup>2 \<le> (11272438267 / 10000000000)"
    by (rule sq_bounds [OF b4]) simp_all
  then have b5: "(11272438249 / 10000000000) \<le> q ^ 32 \<and> q ^ 32 \<le> (11272438267 / 10000000000)"
    by (simp flip: power_mult)
  have "(12706786407 / 10000000000) \<le> (q ^ 32)\<^sup>2 \<and> (q ^ 32)\<^sup>2 \<le> (12706786449 / 10000000000)"
    by (rule sq_bounds [OF b5]) simp_all
  then have b6: "(12706786407 / 10000000000) \<le> q ^ 64 \<and> q ^ 64 \<le> (12706786449 / 10000000000)"
    by (simp flip: power_mult)
  have "(16146242079 / 10000000000) \<le> (q ^ 64)\<^sup>2 \<and> (q ^ 64)\<^sup>2 \<le> (16146242187 / 10000000000)"
    by (rule sq_bounds [OF b6]) simp_all
  then have b7: "(16146242079 / 10000000000) \<le> q ^ 128 \<and> q ^ 128 \<le> (16146242187 / 10000000000)"
    by (simp flip: power_mult)
  have "(26070113327 / 10000000000) \<le> (q ^ 128)\<^sup>2 \<and> (q ^ 128)\<^sup>2 \<le> (26070113677 / 10000000000)"
    by (rule sq_bounds [OF b7]) simp_all
  then have b8: "(26070113327 / 10000000000) \<le> q ^ 256 \<and> q ^ 256 \<le> (26070113677 / 10000000000)"
    by (simp flip: power_mult)
  have c1: "(6625347233 / 2000000000) \<le> q ^ 256 * q ^ 64 \<and> q ^ 256 * q ^ 64 \<le> (414084209 / 125000000)"
    by (rule mul_bounds [OF b8 b6]) simp_all
  have c2: "(11615083363 / 10000000000) \<le> q ^ 32 * q ^ 8 \<and> q ^ 32 * q ^ 8 \<le> (5807541693 / 5000000000)"
    by (rule mul_bounds [OF b5 b3]) simp_all
  have c3: "(3847698021 / 1000000000) \<le> (q ^ 256 * q ^ 64) * (q ^ 32 * q ^ 8)
      \<and> (q ^ 256 * q ^ 64) * (q ^ 32 * q ^ 8) \<le> (38476980931 / 10000000000)"
    by (rule mul_bounds [OF c1 c2]) simp_all
  have "(q ^ 256 * q ^ 64) * (q ^ 32 * q ^ 8) = q ^ 360"
    by (simp flip: power_add)
  with c3 show ?thesis by simp
qed

lemma annuity_360_near:
  fixes X :: real
  assumes "3847698021 / 1000000000 \<le> X \<and> X \<le> 38476980931 / 10000000000"
  shows "\<bar>(160000 * (3 / 800 * X)) / (X - 1) - 810.70\<bar> < 0.005"
proof -
  have pos: "0 < X - 1" using assms by simp
  have "(160000 * (3 / 800 * X)) / (X - 1) = 600 + 600 / (X - 1)"
    using pos by (simp add: field_simps)
  moreover have "600 / (X - 1) < 210.705"
    using pos assms by (simp add: field_simps)
  moreover have "210.695 < 600 / (X - 1)"
    using pos assms by (simp add: field_simps)
  ultimately show ?thesis by (simp add: abs_if)
qed

lemma annuity_example_near: "\<bar>annuity 160000 (3 / 800) 360 - 810.70\<bar> < 0.005"
proof -
  define q :: real where "q = 1 + 3 / 800"
  have q: "q = 803 / 800" by (simp add: q_def)
  define X where "X = q ^ 360"
  have "0 \<le> q" by (simp add: q_def)
  then have "Math_pow q 360 = X" by (simp add: Math_pow_def X_def)
  then have "annuity 160000 (3 / 800) 360 = (160000 * (3 / 800 * X)) / (X - 1)"
    unfolding annuity_def q_def by simp
  moreover have "3847698021 / 1000000000 \<le> X \<and> X \<le> 38476980931 / 10000000000"
    unfolding X_def by (rule growth_factor_360 [OF q])
  ultimately show ?thesis using annuity_360_near by simp
qed

subsection \<open>The shape of the yearly sequence\<close>

lemma funpow_after: "(f ^^ m) ((f ^^ n) x) = (f ^^ (m + n)) x"
  by (simp add: funpow_add)

lemma funpow_year: "(f ^^ (12 * Suc i)) ((f ^^ 12) x) = (f ^^ (12 * Suc (Suc i))) x"
  by (simp only: funpow_after mult_Suc_right add.commute)

lemma int_shift: "yr + 1 + int i = yr + int (Suc i)"
  by simp

lemma yearLoop_unfold:
  "of_int yr \<le> analysisYears p \<Longrightarrow>
     yearLoop p yr s = snapshot p yr ((monthStep p ^^ 12) s) # yearLoop p (yr + 1) ((monthStep p ^^ 12) s)"
  "\<not> of_int yr \<le> analysisYears p \<Longrightarrow> yearLoop p yr s = []"
  by (subst yearLoop.simps; simp add: Let_def)+

lemma yearLoop_full_unfold:
  "of_int yr \<le> analysisYears_full p \<Longrightarrow>
     yearLoop_full p yr s =
       snapshot_full p yr ((monthStep_full p ^^ 12) s)
         # yearLoop_full p (yr + 1) ((monthStep_full p ^^ 12) s)"
  "\<not> of_int yr \<le> analysisYears_full p \<Longrightarrow> yearLoop_full p yr s = []"
  by (subst yearLoop_full.simps; simp add: Let_def)+

lemma yearLoop_length: "length (yearLoop p yr s) = nat (\<lfloor>analysisYears p\<rfloor> + 1 - yr)"
proof (induction p yr s rule: yearLoop.induct)
  case (1 p yr s)
  show ?case
  proof (cases "of_int yr \<le> analysisYears p")
    case True
    then have "yr \<le> \<lfloor>analysisYears p\<rfloor>" by (simp add: le_floor_iff)
    then have "nat (\<lfloor>analysisYears p\<rfloor> + 1 - yr)
        = Suc (nat (\<lfloor>analysisYears p\<rfloor> + 1 - (yr + 1)))"
      by simp
    with 1 True show ?thesis by (simp only: yearLoop_unfold list.size Let_def)
  next
    case False
    then have "\<not> yr \<le> \<lfloor>analysisYears p\<rfloor>" by (simp add: le_floor_iff)
    with False show ?thesis by (simp add: yearLoop_unfold)
  qed
qed

lemma yearLoop_nth:
  "j < length (yearLoop p yr s) \<Longrightarrow>
     yearLoop p yr s ! j = snapshot p (yr + int j) ((monthStep p ^^ (12 * Suc j)) s)"
proof (induction p yr s arbitrary: j rule: yearLoop.induct)
  case (1 p yr s)
  show ?case
  proof (cases "of_int yr \<le> analysisYears p")
    case True
    note unf = yearLoop_unfold(1) [OF True]
    show ?thesis
    proof (cases j)
      case 0
      show ?thesis unfolding unf 0 by simp
    next
      case (Suc i)
      from "1.prems" have i: "i < length (yearLoop p (yr + 1) ((monthStep p ^^ 12) s))"
        unfolding unf Suc by simp
      have "yearLoop p yr s ! j = yearLoop p (yr + 1) ((monthStep p ^^ 12) s) ! i"
        unfolding unf Suc by simp
      also have "\<dots> = snapshot p (yr + 1 + int i) ((monthStep p ^^ (12 * Suc i)) ((monthStep p ^^ 12) s))"
        by (rule "1.IH" [OF True refl i])
      also have "\<dots> = snapshot p (yr + int j) ((monthStep p ^^ (12 * Suc j)) s)"
        unfolding Suc funpow_year by (simp only: int_shift)
      finally show ?thesis .
    qed
  next
    case False
    then have "yearLoop p yr s = []" by (rule yearLoop_unfold(2))
    with "1.prems" have False by simp
    then show ?thesis ..
  qed
qed

lemma yearLoop_full_length:
  "length (yearLoop_full p yr s) = nat (\<lfloor>analysisYears_full p\<rfloor> + 1 - yr)"
proof (induction p yr s rule: yearLoop_full.induct)
  case (1 p yr s)
  show ?case
  proof (cases "of_int yr \<le> analysisYears_full p")
    case True
    then have "yr \<le> \<lfloor>analysisYears_full p\<rfloor>" by (simp add: le_floor_iff)
    then have "nat (\<lfloor>analysisYears_full p\<rfloor> + 1 - yr)
        = Suc (nat (\<lfloor>analysisYears_full p\<rfloor> + 1 - (yr + 1)))"
      by simp
    with 1 True show ?thesis by (simp only: yearLoop_full_unfold list.size Let_def)
  next
    case False
    then have "\<not> yr \<le> \<lfloor>analysisYears_full p\<rfloor>" by (simp add: le_floor_iff)
    with False show ?thesis by (simp add: yearLoop_full_unfold)
  qed
qed

lemma yearLoop_full_nth:
  "j < length (yearLoop_full p yr s) \<Longrightarrow>
     yearLoop_full p yr s ! j
       = snapshot_full p (yr + int j) ((monthStep_full p ^^ (12 * Suc j)) s)"
proof (induction p yr s arbitrary: j rule: yearLoop_full.induct)
  case (1 p yr s)
  show ?case
  proof (cases "of_int yr \<le> analysisYears_full p")
    case True
    note unf = yearLoop_full_unfold(1) [OF True]
    show ?thesis
    proof (cases j)
      case 0
      show ?thesis unfolding unf 0 by simp
    next
      case (Suc i)
      from "1.prems" have i: "i < length (yearLoop_full p (yr + 1) ((monthStep_full p ^^ 12) s))"
        unfolding unf Suc by simp
      have "yearLoop_full p yr s ! j = yearLoop_full p (yr + 1) ((monthStep_full p ^^ 12) s) ! i"
        unfolding unf Suc by simp
      also have "\<dots> = snapshot_full p (yr + 1 + int i)
          ((monthStep_full p ^^ (12 * Suc i)) ((monthStep_full p ^^ 12) s))"
        by (rule "1.IH" [OF True refl i])
      also have "\<dots> = snapshot_full p (yr + int j) ((monthStep_full p ^^ (12 * Suc j)) s)"
        unfolding Suc funpow_year by (simp only: int_shift)
      finally show ?thesis .
    qed
  next
    case False
    then have "yearLoop_full p yr s = []" by (rule yearLoop_full_unfold(2))
    with "1.prems" have False by simp
    then show ?thesis ..
  qed
qed

subsection \<open>What the clamping guarantees\<close>

lemma clamp_facts:
  "0 \<le> interestRate (clamp p)" "interestRate (clamp p) \<le> 20"
  "0 \<le> downPayment (clamp p)" "downPayment (clamp p) \<le> loanAmount (clamp p)"
  "1 \<le> loanTermYears (clamp p)" "loanTermYears (clamp p) \<le> 40"
  "0 \<le> deferralMonths (clamp p)" "deferralMonths (clamp p) \<le> 60"
  "0 \<le> investmentRate (clamp p)"
  "loanTermYears (clamp p) \<le> analysisYears (clamp p)"
  by (simp_all add: clamp_def Let_def)

lemma clamp_full_facts:
  "0 \<le> interestRate (clamp_full p)" "interestRate (clamp_full p) \<le> 20"
  "0 \<le> downPayment (clamp_full p)" "downPayment (clamp_full p) \<le> loanAmount (clamp_full p)"
  "1 \<le> loanTermYears (clamp_full p)" "loanTermYears (clamp_full p) \<le> 40"
  "0 \<le> deferralMonths (clamp_full p)"
  "deferralMonths (clamp_full p) \<le> loanTermYears (clamp_full p) * 12 - 1"
  "0 \<le> investmentRate (clamp_full p)" "0 \<le> insuranceCost (clamp_full p)"
  "0 \<le> additionalYears (clamp_full p)" "0 \<le> inflationRate (clamp_full p)"
  by (simp_all add: clamp_full_def Let_def)

subsection \<open>The investment value of the full variant\<close>

lemma monthStep_full_investment:
  "v_investmentValue (monthStep_full p s) = v_investmentValue s * (1 + investmentRate p / 100 / 12)"
  by (simp add: monthStep_full_def Let_def monthlyInvestmentRate_def)

lemma months_full_investment:
  "v_investmentValue ((monthStep_full p ^^ k) s)
     = ((\<lambda>x. x * (1 + investmentRate p / 100 / 12)) ^^ k) (v_investmentValue s)"
  by (induction k) (simp_all add: monthStep_full_investment)

lemma snapshot_full_investment: "investmentValue (snapshot_full p yr s) = v_investmentValue s"
  by (simp add: snapshot_full_def Let_def)

lemma scenarioLoop_full_unfold:
  "of_int yr \<le> analysisYears_full p \<Longrightarrow>
     scenarioLoop_full p rate yr v
       = scenarioLoop_full p rate (yr + 1) (((\<lambda>x. x * (1 + rate / 100 / 12)) ^^ 12) v)"
  "\<not> of_int yr \<le> analysisYears_full p \<Longrightarrow> scenarioLoop_full p rate yr v = v"
  by (subst scenarioLoop_full.simps; simp)+

lemma last_yearLoop_full_investment:
  "investmentValue x = v_investmentValue s \<Longrightarrow>
     investmentValue (last (x # yearLoop_full p yr s))
       = scenarioLoop_full p (investmentRate p) yr (v_investmentValue s)"
proof (induction p yr s arbitrary: x rule: yearLoop_full.induct)
  case (1 p yr s)
  show ?case
  proof (cases "of_int yr \<le> analysisYears_full p")
    case True
    define s' where "s' = (monthStep_full p ^^ 12) s"
    define x' where "x' = snapshot_full p yr s'"
    have unf: "yearLoop_full p yr s = x' # yearLoop_full p (yr + 1) s'"
      unfolding x'_def s'_def by (rule yearLoop_full_unfold(1) [OF True])
    have x': "investmentValue x' = v_investmentValue s'"
      unfolding x'_def by (rule snapshot_full_investment)
    have s': "v_investmentValue s'
        = ((\<lambda>x. x * (1 + investmentRate p / 100 / 12)) ^^ 12) (v_investmentValue s)"
      unfolding s'_def by (rule months_full_investment)
    have "investmentValue (last (x # yearLoop_full p yr s))
        = investmentValue (last (x' # yearLoop_full p (yr + 1) s'))"
      unfolding unf by simp
    also have "\<dots> = scenarioLoop_full p (investmentRate p) (yr + 1) (v_investmentValue s')"
      using "1.IH" [OF True s'_def [symmetric, THEN sym] x'] .
    also have "\<dots> = scenarioLoop_full p (investmentRate p) yr (v_investmentValue s)"
      unfolding s' by (rule scenarioLoop_full_unfold(1) [OF True, symmetric])
    finally show ?thesis .
  next
    case False
    then show ?thesis
      using "1.prems" by (simp add: yearLoop_full_unfold(2) scenarioLoop_full_unfold(2))
  qed
qed

subsection \<open>Searching a list\<close>

lemma findIndexFrom_none: "\<forall>x\<in>set xs. \<not> P x \<Longrightarrow> findIndexFrom P i xs = -1"
  by (induction xs arbitrary: i) simp_all

lemma findIndexFrom_some:
  "\<exists>x\<in>set xs. P x \<Longrightarrow>
     findIndexFrom P i xs = i + int (length (takeWhile (\<lambda>x. \<not> P x) xs))"
proof (induction xs arbitrary: i)
  case Nil
  then show ?case by simp
next
  case (Cons x xs)
  show ?case
  proof (cases "P x")
    case True
    then show ?thesis by simp
  next
    case False
    with Cons.prems have "\<exists>x\<in>set xs. P x" by simp
    from Cons.IH [OF this, of "i + 1"] False show ?thesis by simp
  qed
qed

lemma find_first:
  "\<exists>x\<in>set xs. P x \<Longrightarrow> find P xs = Some (xs ! length (takeWhile (\<lambda>x. \<not> P x) xs))"
  by (induction xs) auto

lemma find_none: "\<forall>x\<in>set xs. \<not> P x \<Longrightarrow> find P xs = None"
  by (induction xs) auto

lemma takeWhile_short:
  "\<exists>x\<in>set xs. P x \<Longrightarrow> length (takeWhile (\<lambda>x. \<not> P x) xs) < length xs"
  by (induction xs) auto

text \<open>
  The first element that satisfies \<open>P\<close>, in a list whose \<open>j\<close>-th element carries the
  key \<open>c + j\<close>: it has the least key among the elements that satisfy \<open>P\<close>.
\<close>

lemma first_is_minimal:
  fixes key :: "'a \<Rightarrow> int"
  assumes keys: "\<And>j. j < length xs \<Longrightarrow> key (xs ! j) = c + int j"
    and ex: "\<exists>x\<in>set xs. P x"
  defines "k \<equiv> length (takeWhile (\<lambda>x. \<not> P x) xs)"
  shows "xs ! k \<in> set xs \<and> key (xs ! k) = c + int k \<and> P (xs ! k)
         \<and> (\<forall>e\<in>set xs. P e \<longrightarrow> c + int k \<le> key e)"
proof -
  have k: "k < length xs"
    unfolding k_def using ex by (rule takeWhile_short)
  have Pk: "P (xs ! k)"
    using nth_length_takeWhile [of "\<lambda>x. \<not> P x" xs] k unfolding k_def by simp
  have least: "c + int k \<le> key e" if e: "e \<in> set xs" and Pe: "P e" for e
  proof -
    from e obtain j where j: "j < length xs" and ej: "e = xs ! j"
      by (auto simp: in_set_conv_nth)
    have "\<not> j < k"
    proof
      assume "j < k"
      then have "xs ! j \<in> set (takeWhile (\<lambda>x. \<not> P x) xs)"
        unfolding k_def by (metis nth_mem takeWhile_nth)
      then have "\<not> P (xs ! j)" by (rule set_takeWhileD [THEN conjunct2])
      with Pe ej show False by simp
    qed
    then show ?thesis using keys [OF j] ej by simp
  qed
  from k Pk least keys [OF k] show ?thesis by simp
qed

lemma snapshot_year: "year (snapshot p yr s) = yr"
  by (simp add: snapshot_def Let_def)

lemma snapshot_full_year: "year (snapshot_full p yr s) = yr"
  by (simp add: snapshot_full_def Let_def)

lemma yearlyData_year:
  "j < length (yearlyData p) \<Longrightarrow> year (yearlyData p ! j) = 1 + int j"
  unfolding yearlyData_def by (simp only: yearLoop_nth snapshot_year)

lemma yearlyData_full_year:
  "j < length (yearlyData_full p) \<Longrightarrow> year (yearlyData_full p ! j) = 0 + int j"
proof (cases j)
  case 0
  then show ?thesis by (simp add: yearlyData_full_def yearZero_def)
next
  case (Suc i)
  assume "j < length (yearlyData_full p)"
  then have "i < length (yearLoop_full p 1 (initialVars_full p))"
    unfolding Suc yearlyData_full_def by simp
  then have "year (yearLoop_full p 1 (initialVars_full p) ! i) = 1 + int i"
    by (simp only: yearLoop_full_nth snapshot_full_year)
  then show ?thesis unfolding Suc yearlyData_full_def by simp
qed

lemma breakEvenYear_none:
  assumes "\<forall>d\<in>set (yearlyData p). \<not> breakEvenTest p d"
  shows "breakEvenYear p = None"
  using assms by (simp add: breakEvenYear_def findIndex_def findIndexFrom_none)

lemma breakEvenYear_some:
  assumes "\<exists>d\<in>set (yearlyData p). breakEvenTest p d"
  shows "\<exists>d\<in>set (yearlyData p). breakEvenYear p = Some (year d) \<and> breakEvenTest p d
           \<and> (\<forall>e\<in>set (yearlyData p). breakEvenTest p e \<longrightarrow> year d \<le> year e)"
proof -
  define k where "k = length (takeWhile (\<lambda>x. \<not> breakEvenTest p x) (yearlyData p))"
  have "breakEvenYear p = Some (1 + int k)"
    using assms by (simp add: breakEvenYear_def findIndex_def findIndexFrom_some k_def Let_def)
  moreover note first_is_minimal [of "yearlyData p" year 1 "breakEvenTest p", OF yearlyData_year assms,
      folded k_def]
  ultimately show ?thesis by (intro bexI [of _ "yearlyData p ! k"]) auto
qed

lemma breakEvenYear_full_none:
  assumes "\<forall>d\<in>set (yearlyData_full p). \<not> breakEvenTest_full p d"
  shows "breakEvenYear_full p = None"
  using assms by (simp add: breakEvenYear_full_def find_none)

lemma breakEvenYear_full_some:
  assumes "\<exists>d\<in>set (yearlyData_full p). breakEvenTest_full p d"
  shows "\<exists>d\<in>set (yearlyData_full p). breakEvenYear_full p = Some (year d) \<and> breakEvenTest_full p d
           \<and> (\<forall>e\<in>set (yearlyData_full p). breakEvenTest_full p e \<longrightarrow> year d \<le> year e)"
proof -
  define k where "k = length (takeWhile (\<lambda>x. \<not> breakEvenTest_full p x) (yearlyData_full p))"
  have "breakEvenYear_full p = Some (year (yearlyData_full p ! k))"
    using assms by (simp add: breakEvenYear_full_def find_first k_def)
  moreover note first_is_minimal [of "yearlyData_full p" year 0 "breakEvenTest_full p",
      OF yearlyData_full_year assms, folded k_def]
  ultimately show ?thesis by (intro bexI [of _ "yearlyData_full p ! k"]) auto
qed

subsection \<open>The borrowing cost at a zero rate\<close>

lemma zero_rate_cost:
  assumes "interestRate q = 0"
  shows "totalLoanBorrowingCost q = totalInsuranceCost q - principal q"
  using assms
  by (simp add: totalLoanBorrowingCost_def totalInterest_full_def totalPayment_full_def
      monthlyPayment_full_def monthlyRate_def deferralInterestPaid_def)

lemma breakEven_year_zero:
  assumes "totalLoanBorrowingCost q \<le> 0"
  shows "breakEvenYear_full q = Some 0"
  using assms
  by (simp add: breakEvenYear_full_def breakEvenTest_full_def yearlyData_full_def yearZero_def)

subsection \<open>Iterating a step\<close>

lemma funpow_inv:
  assumes "\<And>s. I s \<Longrightarrow> I (f s)" and "I s"
  shows "I ((f ^^ k) s)"
  using assms by (induction k) simp_all


subsection \<open>The months and the balance\<close>

lemma balanceStep_months: "fst (balanceStep r P cap d T mb) = fst mb + 1"
  by (simp add: balanceStep_def Let_def)

lemma balance_months: "fst ((balanceStep r P cap d T ^^ k) mb) = fst mb + int k"
  by (induction k) (simp_all add: balanceStep_months)


lemma balance_zero_step:
  assumes "snd mb = 0"
  shows "snd (balanceStep r 0 cap d T mb) = 0"
  using assms by (simp add: balanceStep_def Let_def)

lemma balance_zero: "snd mb = 0 \<Longrightarrow> snd ((balanceStep r 0 cap d T ^^ k) mb) = 0"
  by (rule funpow_inv [where I = "\<lambda>mb. snd mb = 0"]) (simp_all add: balance_zero_step)






subsection \<open>The balance of a loan, from origination\<close>








subsection \<open>The two simulations act on the months and the balance as \<open>balanceStep\<close>\<close>



lemma monthStep_balance:
  "(v_totalMonthsElapsed (monthStep p s), v_loanBalance (monthStep p s))
     = balanceStep (monthlyRate p) (monthlyPayment p) (deferralType p = Complete)
         (deferralMonths p) (totalLoanMonths p) (v_totalMonthsElapsed s, v_loanBalance s)"
  by (simp add: monthStep_def balanceStep_def Let_def)

lemma monthStep_full_balance:
  "(v_totalMonthsElapsed (monthStep_full p s), v_loanBalance (monthStep_full p s))
     = balanceStep (monthlyRate p) (monthlyPayment_full p) (deferralType p = Complete)
         (deferralMonths p) (totalLoanMonths_full p) (v_totalMonthsElapsed s, v_loanBalance s)"
  by (simp add: monthStep_full_def balanceStep_def Let_def)

lemma months_balance:
  "(v_totalMonthsElapsed ((monthStep p ^^ k) s), v_loanBalance ((monthStep p ^^ k) s))
     = (balanceStep (monthlyRate p) (monthlyPayment p) (deferralType p = Complete)
         (deferralMonths p) (totalLoanMonths p) ^^ k) (v_totalMonthsElapsed s, v_loanBalance s)"
proof (induction k)
  case 0
  show ?case by simp
next
  case (Suc k)
  show ?case
    unfolding funpow.simps comp_def Suc [symmetric] by (rule monthStep_balance)
qed

lemma months_full_balance:
  "(v_totalMonthsElapsed ((monthStep_full p ^^ k) s), v_loanBalance ((monthStep_full p ^^ k) s))
     = (balanceStep (monthlyRate p) (monthlyPayment_full p) (deferralType p = Complete)
         (deferralMonths p) (totalLoanMonths_full p) ^^ k) (v_totalMonthsElapsed s, v_loanBalance s)"
proof (induction k)
  case 0
  show ?case by simp
next
  case (Suc k)
  show ?case
    unfolding funpow.simps comp_def Suc [symmetric] by (rule monthStep_full_balance)
qed

lemma simulated_balance:
  "v_loanBalance ((monthStep p ^^ k) (initialVars p))
     = snd ((balanceStep (monthlyRate p) (monthlyPayment p) (deferralType p = Complete)
         (deferralMonths p) (totalLoanMonths p) ^^ k) (0, principal p))"
  using months_balance [where p = p and k = k and s = "initialVars p", THEN arg_cong [where f = snd]]
  by (simp add: initialVars_def)

lemma simulated_full_balance:
  "v_loanBalance ((monthStep_full p ^^ k) (initialVars_full p))
     = snd ((balanceStep (monthlyRate p) (monthlyPayment_full p) (deferralType p = Complete)
         (deferralMonths p) (totalLoanMonths_full p) ^^ k) (0, principal p))"
  using months_full_balance [where p = p and k = k and s = "initialVars_full p",
      THEN arg_cong [where f = snd]]
  by (simp add: initialVars_full_def)

lemma simulated_months:
  "v_totalMonthsElapsed ((monthStep p ^^ k) s) = v_totalMonthsElapsed s + int k"
  using months_balance [where p = p and k = k and s = s, THEN arg_cong [where f = fst]]
  by (simp add: balance_months)

lemma simulated_full_months:
  "v_totalMonthsElapsed ((monthStep_full p ^^ k) s) = v_totalMonthsElapsed s + int k"
  using months_full_balance [where p = p and k = k and s = s, THEN arg_cong [where f = fst]]
  by (simp add: balance_months)

subsection \<open>The records of the yearly sequence\<close>

lemma snapshot_fields:
  "loanBalance (snapshot p yr s)
     = (if of_int (v_totalMonthsElapsed s) \<le> totalLoanMonths p then v_loanBalance s else 0)"
  "totalPaid (snapshot p yr s) = v_totalPaid s"
  "investmentValue (snapshot p yr s) = v_investmentValue s"
  by (simp_all add: snapshot_def Let_def)

lemma snapshot_full_fields:
  "loanBalance (snapshot_full p yr s)
     = (if of_int (v_totalMonthsElapsed s) \<le> totalLoanMonths_full p then v_loanBalance s
        else 0)"
  "totalPaid (snapshot_full p yr s) = v_totalPaid s"
  "investmentValue (snapshot_full p yr s) = v_investmentValue s"
  by (simp_all add: snapshot_full_def Let_def)

lemma yearlyData_nth:
  "j < length (yearlyData p) \<Longrightarrow>
     yearlyData p ! j = snapshot p (1 + int j) ((monthStep p ^^ (12 * Suc j)) (initialVars p))"
  unfolding yearlyData_def by (rule yearLoop_nth)

lemma yearlyData_full_nth:
  "Suc j < length (yearlyData_full p) \<Longrightarrow>
     yearlyData_full p ! Suc j
       = snapshot_full p (1 + int j) ((monthStep_full p ^^ (12 * Suc j)) (initialVars_full p))"
  unfolding yearlyData_full_def
  by (simp only: nth_Cons_Suc length_Cons Suc_less_eq) (rule yearLoop_full_nth)


subsection \<open>A loan of zero\<close>

lemma zero_principal_balance:
  assumes "principal p = 0"
  shows "monthlyPayment p = 0" and "v_loanBalance ((monthStep p ^^ k) (initialVars p)) = 0"
proof -
  show mp: "monthlyPayment p = 0"
    using assms by (simp add: monthlyPayment_def principalAfterDeferral_zero)
  show "v_loanBalance ((monthStep p ^^ k) (initialVars p)) = 0"
    unfolding simulated_balance mp assms by (rule balance_zero) simp
qed

lemma zero_principal_full_balance:
  assumes "principal p = 0"
  shows "monthlyPayment_full p = 0"
    and "v_loanBalance ((monthStep_full p ^^ k) (initialVars_full p)) = 0"
proof -
  show mp: "monthlyPayment_full p = 0"
    using assms by (simp add: monthlyPayment_full_def principalAfterDeferral_zero)
  show "v_loanBalance ((monthStep_full p ^^ k) (initialVars_full p)) = 0"
    unfolding simulated_full_balance mp assms by (rule balance_zero) simp
qed

lemma zero_principal_records:
  assumes "principal p = 0" and "d \<in> set (yearlyData p)"
  shows "loanBalance d = 0"
proof -
  from assms(2) obtain j where j: "j < length (yearlyData p)" and d: "d = yearlyData p ! j"
    by (auto simp: in_set_conv_nth)
  show ?thesis
    unfolding d yearlyData_nth [OF j] snapshot_fields zero_principal_balance(2) [OF assms(1)]
    by simp
qed

lemma zero_principal_full_records:
  assumes "principal p = 0" and "d \<in> set (yearlyData_full p)"
  shows "loanBalance d = 0"
proof -
  from assms(2) obtain j where j: "j < length (yearlyData_full p)" and d: "d = yearlyData_full p ! j"
    by (auto simp: in_set_conv_nth)
  show ?thesis
  proof (cases j)
    case 0
    then show ?thesis using assms(1) by (simp add: d yearlyData_full_def yearZero_def)
  next
    case (Suc i)
    with j have "Suc i < length (yearlyData_full p)" by simp
    from yearlyData_full_nth [OF this] show ?thesis
      unfolding d Suc
      by (simp only: snapshot_full_fields zero_principal_full_balance(2) [OF assms(1)] if_cancel)
  qed
qed

subsection \<open>The cumulative figures grow\<close>









subsection \<open>The loan balance of the clamped inputs\<close>







subsection \<open>The reported balance once the loan is over\<close>



subsection \<open>Capitalising deferral against no deferral\<close>

lemma capitalised_base_larger:
  assumes "0 < principal p" and "1 \<le> deferralMonths p" and "deferralType p = Complete"
    and "0 < interestRate p"
  shows "principalAfterDeferral (p\<lparr>deferralMonths := 0\<rparr>) = principal p"
    and "principal p < principalAfterDeferral p"
proof -
  show "principalAfterDeferral (p\<lparr>deferralMonths := 0\<rparr>) = principal p"
    by (simp add: principalAfterDeferral_eq principal_def monthlyRate_def)
  have "0 < \<lceil>deferralMonths p\<rceil>" using assms(2) by (simp add: less_ceiling_iff)
  then have "0 < nat \<lceil>deferralMonths p\<rceil>" by simp
  moreover have "1 < 1 + monthlyRate p" using assms(4) by (simp add: monthlyRate_def)
  ultimately have "1 < (1 + monthlyRate p) ^ nat \<lceil>deferralMonths p\<rceil>"
    by (intro one_less_power) auto
  with assms(1)
  have "principal p * 1 < principal p * (1 + monthlyRate p) ^ nat \<lceil>deferralMonths p\<rceil>"
    by (intro mult_strict_left_mono) auto
  then show "principal p < principalAfterDeferral p"
    using assms(3) by (simp add: principalAfterDeferral_eq)
qed

lemma capitalised_payment_larger:
  assumes "0 < principal p" and "1 \<le> deferralMonths p" and "deferralType p = Complete"
    and "0 < interestRate p" and "1 \<le> loanTermYears p"
  shows "monthlyPayment (p\<lparr>deferralMonths := 0\<rparr>) < monthlyPayment p"
proof -
  note base = capitalised_base_larger [OF assms(1-4)]
  have r: "0 < monthlyRate p" using assms(4) by (simp add: monthlyRate_def)
  have n: "1 \<le> numberOfPayments p" using assms(5) by (simp add: numberOfPayments_def)
  have "monthlyPayment (p\<lparr>deferralMonths := 0\<rparr>)
      = annuity (principal p) (monthlyRate p) (numberOfPayments p)"
    using assms(1) r unfolding monthlyPayment_annuity base(1)
    by (simp add: monthlyRate_def numberOfPayments_def)
  also have "\<dots> < annuity (principalAfterDeferral p) (monthlyRate p) (numberOfPayments p)"
    using r n base(2) by (rule annuity_strict_mono_principal)
  also have "\<dots> = monthlyPayment p"
    using assms(1) r base(2) by (simp add: monthlyPayment_annuity)
  finally show ?thesis .
qed

lemma capitalised_payment_full_larger:
  assumes "0 < principal p" and "1 \<le> deferralMonths p" and "deferralType p = Complete"
    and "0 < interestRate p" and "1 \<le> loanTermYears p"
  shows "monthlyPayment_full (p\<lparr>deferralMonths := 0\<rparr>) < monthlyPayment_full p"
proof -
  note base = capitalised_base_larger [OF assms(1-4)]
  have r: "0 < monthlyRate p" using assms(4) by (simp add: monthlyRate_def)
  have n: "1 \<le> numberOfPayments_full p" by (simp add: numberOfPayments_full_def)
  have nn: "numberOfPayments_full p \<le> numberOfPayments_full (p\<lparr>deferralMonths := 0\<rparr>)"
    using assms(2,5) by (simp add: numberOfPayments_full_def totalLoanMonths_full_def)
  have "monthlyPayment_full (p\<lparr>deferralMonths := 0\<rparr>)
      = annuity (principal p) (monthlyRate p) (numberOfPayments_full (p\<lparr>deferralMonths := 0\<rparr>))"
    using assms(1) r unfolding monthlyPayment_full_annuity base(1)
    by (simp add: monthlyRate_def)
  also have "\<dots> \<le> annuity (principal p) (monthlyRate p) (numberOfPayments_full p)"
    using r n nn assms(1) by (intro annuity_antimono) auto
  also have "\<dots> < annuity (principalAfterDeferral p) (monthlyRate p) (numberOfPayments_full p)"
    using r n base(2) by (rule annuity_strict_mono_principal)
  also have "\<dots> = monthlyPayment_full p"
    using assms(1) r base(2) by (simp add: monthlyPayment_full_annuity)
  finally show ?thesis .
qed

subsection \<open>Sequences of one year\<close>

lemma one_year:
  assumes "analysisYears p = 1"
  shows "yearlyData p = [snapshot p 1 ((monthStep p ^^ 12) (initialVars p))]"
proof -
  have a: "of_int (1::int) \<le> analysisYears p" and b: "\<not> of_int ((1::int) + 1) \<le> analysisYears p"
    unfolding assms by simp_all
  show ?thesis
    unfolding yearlyData_def
    by (simp only: yearLoop_unfold(1) [OF a]) (simp only: yearLoop_unfold(2) [OF b])
qed

lemma one_year_full:
  assumes "analysisYears_full p = 1"
  shows "yearlyData_full p
           = [yearZero p, snapshot_full p 1 ((monthStep_full p ^^ 12) (initialVars_full p))]"
proof -
  have a: "of_int (1::int) \<le> analysisYears_full p"
    and b: "\<not> of_int ((1::int) + 1) \<le> analysisYears_full p"
    unfolding assms by simp_all
  show ?thesis
    unfolding yearlyData_full_def
    by (simp only: yearLoop_full_unfold(1) [OF a]) (simp only: yearLoop_full_unfold(2) [OF b])
qed

lemma small_horizons:
  "analysisYears (clamp (small_deferral rate d)) = 1"
  "analysisYears_full (clamp_full (small_full rate d)) = 1"
  "analysisYears (clamp ((small_deferral rate d)\<lparr>downPayment := 1200\<rparr>)) = 1"
  "analysisYears_full (clamp_full ((small_full rate d)\<lparr>downPayment := 1200\<rparr>)) = 1"
  by (simp_all add: clamp_def clamp_full_def small_deferral_def small_full_def
      analysisYears_full_def)

subsection \<open>The last record of a horizon that ends within the loan\<close>

lemma snapshot_active:
  "isLoanActive (snapshot p yr s) = (of_int (v_totalMonthsElapsed s) \<le> totalLoanMonths p)"
  "isLoanActive (snapshot_full q yr t) = (of_int (v_totalMonthsElapsed t) \<le> totalLoanMonths_full q)"
  by (simp_all add: snapshot_def snapshot_full_def Let_def)

lemma last_record_active:
  assumes A: "1 \<le> analysisYears p"
    and T: "12 * of_int \<lfloor>analysisYears p\<rfloor> \<le> totalLoanMonths p"
  shows "length (yearlyData p) = nat \<lfloor>analysisYears p\<rfloor>"
    and "isLoanActive (last (yearlyData p))"
proof -
  define n where "n = nat \<lfloor>analysisYears p\<rfloor>"
  have "1 \<le> \<lfloor>analysisYears p\<rfloor>" using A by (simp add: le_floor_iff)
  then have n: "0 < n" and nA: "int n = \<lfloor>analysisYears p\<rfloor>" by (simp_all add: n_def)
  show len: "length (yearlyData p) = nat \<lfloor>analysisYears p\<rfloor>"
    unfolding yearlyData_def yearLoop_length by simp
  define j where "j = n - 1"
  have j: "j < length (yearlyData p)" and Sj: "Suc j = n"
    using n unfolding len j_def n_def by simp_all
  define S where "S = (monthStep p ^^ (12 * Suc j)) (initialVars p)"
  have "yearlyData p \<noteq> []" using j by auto
  then have "last (yearlyData p) = yearlyData p ! j"
    unfolding j_def n_def len [symmetric] by (rule last_conv_nth)
  also have "\<dots> = snapshot p (1 + int j) S"
    unfolding S_def by (rule yearlyData_nth [OF j])
  finally have rec: "last (yearlyData p) = snapshot p (1 + int j) S" .
  have "v_totalMonthsElapsed S = int (12 * Suc j)"
    unfolding S_def simulated_months by (simp add: initialVars_def)
  then have "(of_int (v_totalMonthsElapsed S) :: real) = 12 * of_int \<lfloor>analysisYears p\<rfloor>"
    unfolding Sj nA [symmetric] by simp
  with T show "isLoanActive (last (yearlyData p))"
    unfolding rec snapshot_active by simp
qed

lemma last_record_full_active:
  assumes A: "1 \<le> analysisYears_full p"
    and T: "12 * of_int \<lfloor>analysisYears_full p\<rfloor> \<le> totalLoanMonths_full p"
  shows "length (yearlyData_full p) = Suc (nat \<lfloor>analysisYears_full p\<rfloor>)"
    and "isLoanActive (last (yearlyData_full p))"
proof -
  define n where "n = nat \<lfloor>analysisYears_full p\<rfloor>"
  have "1 \<le> \<lfloor>analysisYears_full p\<rfloor>" using A by (simp add: le_floor_iff)
  then have n: "0 < n" and nA: "int n = \<lfloor>analysisYears_full p\<rfloor>" by (simp_all add: n_def)
  show len: "length (yearlyData_full p) = Suc (nat \<lfloor>analysisYears_full p\<rfloor>)"
    unfolding yearlyData_full_def by (simp add: yearLoop_full_length)
  define j where "j = n - 1"
  have j: "Suc j < length (yearlyData_full p)" and Sj: "Suc j = n"
    using n unfolding len j_def n_def by simp_all
  define S where "S = (monthStep_full p ^^ (12 * Suc j)) (initialVars_full p)"
  have "yearlyData_full p \<noteq> []" using j by auto
  then have "last (yearlyData_full p) = yearlyData_full p ! (length (yearlyData_full p) - 1)"
    by (rule last_conv_nth)
  also have "length (yearlyData_full p) - 1 = Suc j"
    unfolding len Sj n_def by simp
  also have "yearlyData_full p ! Suc j = snapshot_full p (1 + int j) S"
    unfolding S_def by (rule yearlyData_full_nth [OF j])
  finally have rec: "last (yearlyData_full p) = snapshot_full p (1 + int j) S" .
  have "v_totalMonthsElapsed S = int (12 * Suc j)"
    unfolding S_def simulated_full_months by (simp add: initialVars_full_def)
  then have "(of_int (v_totalMonthsElapsed S) :: real) = 12 * of_int \<lfloor>analysisYears_full p\<rfloor>"
    unfolding Sj nA [symmetric] by simp
  with T show "isLoanActive (last (yearlyData_full p))"
    unfolding rec snapshot_active by simp
qed



section \<open>The claims\<close>

subsection \<open>C8: the worked example\<close>

lemma example_basic_values:
  "principal example_basic = 160000" "monthlyRate example_basic = 3 / 800"
  "numberOfPayments example_basic = 360"
  by (simp_all add: example_basic_def principal_def monthlyRate_def numberOfPayments_def)

lemma example_deferral_values:
  "principal (clamp (DEFAULTS\<lparr>deferralMonths := 0\<rparr>)) = 160000"
  "monthlyRate (clamp (DEFAULTS\<lparr>deferralMonths := 0\<rparr>)) = 3 / 800"
  "numberOfPayments (clamp (DEFAULTS\<lparr>deferralMonths := 0\<rparr>)) = 360"
  "principalAfterDeferral (clamp (DEFAULTS\<lparr>deferralMonths := 0\<rparr>)) = 160000"
  by (simp_all add: DEFAULTS_def clamp_def principal_def monthlyRate_def numberOfPayments_def
      principalAfterDeferral_eq)

text \<open>
  Claim C8. For \<open>loanAmount = 200000\<close>, \<open>downPayment = 40000\<close>, an annual interest of
  4.5 percent, a term of 30 years and no deferral, the principal is 160000, the monthly rate
  is 0.00375, there are 360 payments, and the monthly payment is 810.70 up to half a cent.
  This holds in the basic calculator and in the deferral variant (on the clamped
  \<open>DEFAULTS\<close> with \<open>deferralMonths = 0\<close>).
\<close>

theorem C8_worked_example:
  "principal example_basic = 160000
   \<and> monthlyRate example_basic = 0.00375
   \<and> numberOfPayments example_basic = 360
   \<and> \<bar>monthlyPayment_basic example_basic - 810.70\<bar> < 0.005
   \<and> principal (clamp (DEFAULTS\<lparr>deferralMonths := 0\<rparr>)) = 160000
   \<and> monthlyRate (clamp (DEFAULTS\<lparr>deferralMonths := 0\<rparr>)) = 0.00375
   \<and> numberOfPayments (clamp (DEFAULTS\<lparr>deferralMonths := 0\<rparr>)) = 360
   \<and> \<bar>monthlyPayment (clamp (DEFAULTS\<lparr>deferralMonths := 0\<rparr>)) - 810.70\<bar> < 0.005"
proof -
  have "monthlyPayment_basic example_basic = annuity 160000 (3 / 800) 360"
    by (simp add: monthlyPayment_basic_annuity example_basic_values)
  moreover have "monthlyPayment (clamp (DEFAULTS\<lparr>deferralMonths := 0\<rparr>))
      = annuity 160000 (3 / 800) 360"
    by (simp add: monthlyPayment_annuity example_deferral_values)
  ultimately show ?thesis
    using annuity_example_near by (simp add: example_basic_values example_deferral_values)
qed

subsection \<open>C1: the payment at a zero rate\<close>

text \<open>
  Claim C1, as stated, fails: at a zero interest rate and a principal of 1200 over twelve
  payments the three calculators return 0, not \<open>1200 / 12 = 100\<close>.
\<close>

theorem C1_zero_rate_counterexample:
  "monthlyRate (small_basic 0) = 0 \<and> principal (small_basic 0) > 0
   \<and> monthlyPayment_basic (small_basic 0)
       \<noteq> principal (small_basic 0) / numberOfPayments (small_basic 0)
   \<and> monthlyPayment (clamp (small_deferral 0 0))
       \<noteq> principal (clamp (small_deferral 0 0))
           / numberOfPayments (clamp (small_deferral 0 0))
   \<and> monthlyPayment_full (clamp_full (small_full 0 0))
       \<noteq> principal (clamp_full (small_full 0 0))
           / numberOfPayments_full (clamp_full (small_full 0 0))"
  by (simp add: small_basic_def small_deferral_def small_full_def clamp_def clamp_full_def
      monthlyPayment_basic_def monthlyPayment_def monthlyPayment_full_def
      monthlyRate_def principal_def numberOfPayments_def numberOfPayments_full_def
      totalLoanMonths_full_def)

text \<open>
  Claim C1, amended. For every parameter set with \<open>monthlyRate = 0\<close> the monthly payment
  is 0, whatever the principal: the guard \<open>monthlyRate > 0\<close> of the formula sends a zero
  rate to the branch that returns 0.
\<close>

theorem C1_zero_rate_payment:
  "(monthlyRate b = 0 \<longrightarrow> monthlyPayment_basic b = 0)
   \<and> (monthlyRate p = 0 \<longrightarrow> monthlyPayment p = 0)
   \<and> (monthlyRate q = 0 \<longrightarrow> monthlyPayment_full q = 0)"
  by (simp add: monthlyPayment_basic_def monthlyPayment_def monthlyPayment_full_def)

theorem C1_zero_rate_payment_witness:
  "monthlyRate (small_basic 0) = 0 \<and> monthlyPayment_basic (small_basic 0) = 0
   \<and> monthlyRate (clamp (small_deferral 0 0)) = 0
   \<and> monthlyPayment (clamp (small_deferral 0 0)) = 0
   \<and> monthlyRate (clamp_full (small_full 0 0)) = 0
   \<and> monthlyPayment_full (clamp_full (small_full 0 0)) = 0"
proof -
  have b: "monthlyRate (small_basic 0) = 0"
    by (simp add: monthlyRate_def small_basic_def)
  have p: "monthlyRate (clamp (small_deferral 0 0)) = 0"
    by (simp add: monthlyRate_def small_deferral_def clamp_def)
  have q: "monthlyRate (clamp_full (small_full 0 0)) = 0"
    by (simp add: monthlyRate_def small_full_def clamp_full_def)
  show ?thesis
    using C1_zero_rate_payment [of "small_basic 0" "clamp (small_deferral 0 0)"
        "clamp_full (small_full 0 0)"] b p q
    by simp
qed

subsection \<open>C4: the analysis horizon and the loan\<close>

lemma short_horizon_inputs:
  "analysisYears (clamp (DEFAULTS\<lparr>analysisYears := 30\<rparr>)) = 30"
  "deferralMonths (clamp (DEFAULTS\<lparr>analysisYears := 30\<rparr>)) = 12"
  "totalLoanMonths (clamp (DEFAULTS\<lparr>analysisYears := 30\<rparr>)) = 372"
  "loanTermYears (clamp_full (DEFAULTS_full\<lparr>loanTermYears := 2.5, additionalYears := 0\<rparr>)) = 2.5"
  "analysisYears_full (clamp_full (DEFAULTS_full\<lparr>loanTermYears := 2.5, additionalYears := 0\<rparr>))
     = 2.5"
  "totalLoanMonths_full (clamp_full (DEFAULTS_full\<lparr>loanTermYears := 2.5, additionalYears := 0\<rparr>))
     = 30"
  by (simp_all add: DEFAULTS_def DEFAULTS_full_def clamp_def clamp_full_def totalLoanMonths_def
      numberOfPayments_def analysisYears_full_def totalLoanMonths_full_def Let_def)

lemma short_horizon_floors: "\<lfloor>30::real\<rfloor> = 30" "\<lfloor>2.5::real\<rfloor> = 2"
  by (simp_all add: floor_eq_iff)

text \<open>
  Claim C4 does not hold of the code. In the deferral variant the clamp bounds the horizon
  by \<open>loanTermYears\<close> only, and the deferral months come on top of the term: on the
  defaults (a term of 30 years, 12 months of deferral) with \<open>analysisYears = 30\<close>, the
  horizon stays at 30 years while the loan lasts 372 months, that is 31 years; the yearly
  sequence has 30 records and the last one still has \<open>isLoanActive\<close> true. In the full
  variant the clamps round nothing: a term of 2.5 years with no additional years gives a
  horizon of 2.5 years and a loan of 30 months, that is 3 years; the loop runs for years 1
  and 2, and the last of the three records (years 0, 1, 2) still has \<open>isLoanActive\<close>
  true.
\<close>

theorem C4_horizon_short_of_loan:
  "analysisYears (clamp (DEFAULTS\<lparr>analysisYears := 30\<rparr>)) = 30
   \<and> deferralMonths (clamp (DEFAULTS\<lparr>analysisYears := 30\<rparr>)) = 12
   \<and> totalLoanMonths (clamp (DEFAULTS\<lparr>analysisYears := 30\<rparr>)) = 372
   \<and> totalLoanYears (clamp (DEFAULTS\<lparr>analysisYears := 30\<rparr>)) = 31
   \<and> analysisYears (clamp (DEFAULTS\<lparr>analysisYears := 30\<rparr>))
       < of_int (Math_ceil (totalLoanMonths (clamp (DEFAULTS\<lparr>analysisYears := 30\<rparr>)) / 12))
   \<and> length (yearlyData (clamp (DEFAULTS\<lparr>analysisYears := 30\<rparr>))) = 30
   \<and> isLoanActive (last (yearlyData (clamp (DEFAULTS\<lparr>analysisYears := 30\<rparr>))))
   \<and> analysisYears_full (clamp_full (DEFAULTS_full\<lparr>loanTermYears := 2.5, additionalYears := 0\<rparr>))
       = 2.5
   \<and> totalLoanMonths_full
         (clamp_full (DEFAULTS_full\<lparr>loanTermYears := 2.5, additionalYears := 0\<rparr>)) = 30
   \<and> totalLoanYears_full
         (clamp_full (DEFAULTS_full\<lparr>loanTermYears := 2.5, additionalYears := 0\<rparr>)) = 3
   \<and> analysisYears_full (clamp_full (DEFAULTS_full\<lparr>loanTermYears := 2.5, additionalYears := 0\<rparr>))
       < of_int (Math_ceil (totalLoanMonths_full
           (clamp_full (DEFAULTS_full\<lparr>loanTermYears := 2.5, additionalYears := 0\<rparr>)) / 12))
   \<and> length (yearlyData_full
         (clamp_full (DEFAULTS_full\<lparr>loanTermYears := 2.5, additionalYears := 0\<rparr>))) = 3
   \<and> isLoanActive (last (yearlyData_full
         (clamp_full (DEFAULTS_full\<lparr>loanTermYears := 2.5, additionalYears := 0\<rparr>))))"
proof -
  define p where "p = clamp (DEFAULTS\<lparr>analysisYears := 30\<rparr>)"
  define q where "q = clamp_full (DEFAULTS_full\<lparr>loanTermYears := 2.5, additionalYears := 0\<rparr>)"
  note vals = short_horizon_inputs [folded p_def q_def]
  have p1: "1 \<le> analysisYears p" and p2: "12 * of_int \<lfloor>analysisYears p\<rfloor> \<le> totalLoanMonths p"
    unfolding vals short_horizon_floors by simp_all
  have q1: "1 \<le> analysisYears_full q"
    and q2: "12 * of_int \<lfloor>analysisYears_full q\<rfloor> \<le> totalLoanMonths_full q"
    unfolding vals short_horizon_floors by simp_all
  have lp: "length (yearlyData p) = 30"
    unfolding last_record_active(1) [OF p1 p2] vals short_horizon_floors by simp
  have lq: "length (yearlyData_full q) = 3"
    unfolding last_record_full_active(1) [OF q1 q2] vals short_horizon_floors by simp
  have cp: "totalLoanYears p = 31" "analysisYears p < of_int (Math_ceil (totalLoanMonths p / 12))"
    unfolding totalLoanYears_def vals by (simp_all add: Math_ceil_def)
  have cq: "totalLoanYears_full q = 3"
    "analysisYears_full q < of_int (Math_ceil (totalLoanMonths_full q / 12))"
    unfolding totalLoanYears_full_def vals by (simp_all add: Math_ceil_def ceiling_eq_iff)
  from vals lp lq cp cq last_record_active(2) [OF p1 p2] last_record_full_active(2) [OF q1 q2]
  show ?thesis unfolding p_def q_def by blast
qed

subsection \<open>C9: the expected scenario and the main simulation\<close>

text \<open>
  Claim C9. In the full variant, \<open>scenarioCalculation(investmentRate)\<close> equals the
  investment value of the last yearly record, for every parameter set.
\<close>

theorem C9_expected_scenario_is_final_value:
  "scenarioCalculation_full p (investmentRate p) = finalInvestmentValue_full p"
proof -
  have "investmentValue (yearZero p) = v_investmentValue (initialVars_full p)"
    by (simp add: yearZero_def initialVars_full_def)
  from last_yearLoop_full_investment [OF this, of p 1]
  show ?thesis
    by (simp add: scenarioCalculation_full_def finalInvestmentValue_full_def yearlyData_full_def
        initialVars_full_def)
qed

subsection \<open>C10: a break-even year of 0\<close>

text \<open>
  Claim C10. In the full variant the scan starts at the year-0 record, whose
  \<open>interestEarned\<close> is 0. At a zero interest rate and a zero insurance cost (and a down
  payment that does not exceed the loan amount) the total borrowing cost is not positive,
  and \<open>breakEvenYear\<close> is the number 0, which is as falsy as \<open>null\<close>.
\<close>

theorem C10_break_even_year_zero:
  assumes "interestRate q = 0" and "insuranceCost q = 0" and "downPayment q \<le> loanAmount q"
  shows "totalLoanBorrowingCost q \<le> 0 \<and> breakEvenYear_full q = Some 0
         \<and> \<not> js_truthy (breakEvenYear_full q) \<and> \<not> js_truthy None"
proof -
  have "totalLoanBorrowingCost q \<le> 0"
    using assms by (simp add: zero_rate_cost totalInsuranceCost_def principal_def)
  then show ?thesis by (simp add: breakEven_year_zero js_truthy_def)
qed

theorem C10_break_even_year_zero_witness:
  "interestRate (clamp_full (small_full 0 0)) = 0
   \<and> insuranceCost (clamp_full (small_full 0 0)) = 0
   \<and> downPayment (clamp_full (small_full 0 0)) \<le> loanAmount (clamp_full (small_full 0 0))
   \<and> breakEvenYear_full (clamp_full (small_full 0 0)) = Some 0
   \<and> \<not> js_truthy (breakEvenYear_full (clamp_full (small_full 0 0)))"
proof -
  have h: "interestRate (clamp_full (small_full 0 0)) = 0"
    "insuranceCost (clamp_full (small_full 0 0)) = 0"
    "downPayment (clamp_full (small_full 0 0)) \<le> loanAmount (clamp_full (small_full 0 0))"
    by (simp_all add: clamp_full_def small_full_def)
  from C10_break_even_year_zero [OF h] h show ?thesis by (simp add: js_truthy_def)
qed

subsection \<open>C2: the break-even year is the first profitable year\<close>

lemma small_deferral_year_one:
  "yearlyData (clamp (small_deferral 0 0))
     = [snapshot (clamp (small_deferral 0 0)) 1
          ((monthStep (clamp (small_deferral 0 0)) ^^ 12) (initialVars (clamp (small_deferral 0 0))))]"
  by (rule one_year [OF small_horizons(1)])

lemma small_deferral_months:
  "(monthStep (clamp (small_deferral 0 0)) ^^ 12) (initialVars (clamp (small_deferral 0 0)))
     = \<lparr> v_investmentValue = 0, v_loanBalance = 1200, v_totalPaid = 0, v_totalMonthsElapsed = 12 \<rparr>"
  by (simp add: clamp_def small_deferral_def initialVars_def monthStep_def Let_def principal_def
      totalLoanMonths_def numberOfPayments_def monthlyRate_def monthlyPayment_def
      principalAfterDeferral_eq monthlyInvestmentRate_def eval_nat_numeral)

lemma small_deferral_test:
  "breakEvenTest (clamp (small_deferral 0 0))
     (snapshot (clamp (small_deferral 0 0)) 1
        \<lparr> v_investmentValue = 0, v_loanBalance = 1200, v_totalPaid = 0, v_totalMonthsElapsed = 12 \<rparr>)"
  by (simp add: breakEvenTest_def snapshot_def Let_def totalInterest_def totalPayment_def
      monthlyPayment_def monthlyRate_def principal_def clamp_def small_deferral_def)

lemma small_full_test:
  "breakEvenTest_full (clamp_full (small_full 0 0)) (yearZero (clamp_full (small_full 0 0)))"
proof -
  have "interestRate (clamp_full (small_full 0 0)) = 0"
    by (simp add: clamp_full_def small_full_def)
  from zero_rate_cost [OF this] show ?thesis
    by (simp add: breakEvenTest_full_def yearZero_def totalInsuranceCost_def principal_def
        clamp_full_def small_full_def)
qed

text \<open>
  Claim C2. When some record of the yearly sequence satisfies the variant's profitability
  test, the break-even year is the year of such a record and no record that satisfies the
  test has an earlier year; when no record satisfies it, the result is the absent value
  (\<open>None\<close>, not a year).
\<close>

theorem C2_break_even_minimal:
  "(if \<exists>d\<in>set (yearlyData p). breakEvenTest p d
    then \<exists>d\<in>set (yearlyData p). breakEvenYear p = Some (year d) \<and> breakEvenTest p d
           \<and> (\<forall>e\<in>set (yearlyData p). breakEvenTest p e \<longrightarrow> year d \<le> year e)
    else breakEvenYear p = None)
   \<and> (if \<exists>d\<in>set (yearlyData_full q). breakEvenTest_full q d
      then \<exists>d\<in>set (yearlyData_full q). breakEvenYear_full q = Some (year d)
             \<and> breakEvenTest_full q d
             \<and> (\<forall>e\<in>set (yearlyData_full q). breakEvenTest_full q e \<longrightarrow> year d \<le> year e)
      else breakEvenYear_full q = None)"
proof -
  have "\<exists>d\<in>set (yearlyData p). breakEvenYear p = Some (year d) \<and> breakEvenTest p d
           \<and> (\<forall>e\<in>set (yearlyData p). breakEvenTest p e \<longrightarrow> year d \<le> year e)"
    if "\<exists>d\<in>set (yearlyData p). breakEvenTest p d"
    using that by (rule breakEvenYear_some)
  moreover have "breakEvenYear p = None" if "\<not> (\<exists>d\<in>set (yearlyData p). breakEvenTest p d)"
    using that by (intro breakEvenYear_none) simp
  moreover have "\<exists>d\<in>set (yearlyData_full q). breakEvenYear_full q = Some (year d)
             \<and> breakEvenTest_full q d
             \<and> (\<forall>e\<in>set (yearlyData_full q). breakEvenTest_full q e \<longrightarrow> year d \<le> year e)"
    if "\<exists>d\<in>set (yearlyData_full q). breakEvenTest_full q d"
    using that by (rule breakEvenYear_full_some)
  moreover have "breakEvenYear_full q = None"
    if "\<not> (\<exists>d\<in>set (yearlyData_full q). breakEvenTest_full q d)"
    using that by (intro breakEvenYear_full_none) simp
  ultimately show ?thesis by presburger
qed

theorem C2_break_even_minimal_witness:
  "(\<exists>d\<in>set (yearlyData (clamp (small_deferral 0 0))). breakEvenTest (clamp (small_deferral 0 0)) d)
   \<and> (\<exists>d\<in>set (yearlyData (clamp (small_deferral 0 0))).
         breakEvenYear (clamp (small_deferral 0 0)) = Some (year d)
         \<and> breakEvenTest (clamp (small_deferral 0 0)) d
         \<and> (\<forall>e\<in>set (yearlyData (clamp (small_deferral 0 0))).
               breakEvenTest (clamp (small_deferral 0 0)) e \<longrightarrow> year d \<le> year e))
   \<and> (\<exists>d\<in>set (yearlyData_full (clamp_full (small_full 0 0))).
         breakEvenTest_full (clamp_full (small_full 0 0)) d)
   \<and> (\<exists>d\<in>set (yearlyData_full (clamp_full (small_full 0 0))).
         breakEvenYear_full (clamp_full (small_full 0 0)) = Some (year d)
         \<and> breakEvenTest_full (clamp_full (small_full 0 0)) d
         \<and> (\<forall>e\<in>set (yearlyData_full (clamp_full (small_full 0 0))).
               breakEvenTest_full (clamp_full (small_full 0 0)) e \<longrightarrow> year d \<le> year e))"
proof -
  have a: "\<exists>d\<in>set (yearlyData (clamp (small_deferral 0 0))). breakEvenTest (clamp (small_deferral 0 0)) d"
    unfolding small_deferral_year_one small_deferral_months using small_deferral_test by simp
  have b: "\<exists>d\<in>set (yearlyData_full (clamp_full (small_full 0 0))).
      breakEvenTest_full (clamp_full (small_full 0 0)) d"
    unfolding yearlyData_full_def using small_full_test by simp
  from C2_break_even_minimal [of "clamp (small_deferral 0 0)" "clamp_full (small_full 0 0)"] a b
  show ?thesis by presburger
qed

subsection \<open>C6: a principal of zero\<close>

text \<open>
  Claim C6. For every parameter set whose principal is 0, the monthly payment is 0 and
  every record of the yearly sequence has a loan balance of 0. (The model is total: no
  case of it stands for an error.)
\<close>

theorem C6_zero_principal:
  "(principal b = 0 \<longrightarrow> monthlyPayment_basic b = 0)
   \<and> (principal p = 0 \<longrightarrow>
        monthlyPayment p = 0 \<and> (\<forall>d\<in>set (yearlyData p). loanBalance d = 0))
   \<and> (principal q = 0 \<longrightarrow>
        monthlyPayment_full q = 0 \<and> (\<forall>d\<in>set (yearlyData_full q). loanBalance d = 0))"
  using zero_principal_balance(1) [of p] zero_principal_records [of p]
    zero_principal_full_balance(1) [of q] zero_principal_full_records [of q]
  by (auto simp: monthlyPayment_basic_def)

theorem C6_zero_principal_witness:
  "principal ((small_basic 5)\<lparr>downPayment := 1200\<rparr>) = 0
   \<and> monthlyPayment_basic ((small_basic 5)\<lparr>downPayment := 1200\<rparr>) = 0
   \<and> principal (clamp ((small_deferral 5 3)\<lparr>downPayment := 1200\<rparr>)) = 0
   \<and> monthlyPayment (clamp ((small_deferral 5 3)\<lparr>downPayment := 1200\<rparr>)) = 0
   \<and> map loanBalance (yearlyData (clamp ((small_deferral 5 3)\<lparr>downPayment := 1200\<rparr>))) = [0]
   \<and> principal (clamp_full ((small_full 5 3)\<lparr>downPayment := 1200\<rparr>)) = 0
   \<and> monthlyPayment_full (clamp_full ((small_full 5 3)\<lparr>downPayment := 1200\<rparr>)) = 0
   \<and> map loanBalance (yearlyData_full (clamp_full ((small_full 5 3)\<lparr>downPayment := 1200\<rparr>)))
       = [0, 0]"
proof -
  define b where "b = (small_basic 5)\<lparr>downPayment := 1200\<rparr>"
  define p where "p = clamp ((small_deferral 5 3)\<lparr>downPayment := 1200\<rparr>)"
  define q where "q = clamp_full ((small_full 5 3)\<lparr>downPayment := 1200\<rparr>)"
  have b: "principal b = 0" by (simp add: b_def principal_def small_basic_def)
  have p: "principal p = 0" by (simp add: p_def principal_def clamp_def small_deferral_def)
  have q: "principal q = 0" by (simp add: q_def principal_def clamp_full_def small_full_def)
  have yp: "yearlyData p = [snapshot p 1 ((monthStep p ^^ 12) (initialVars p))]"
    unfolding p_def by (rule one_year [OF small_horizons(3)])
  have yq: "yearlyData_full q
      = [yearZero q, snapshot_full q 1 ((monthStep_full q ^^ 12) (initialVars_full q))]"
    unfolding q_def by (rule one_year_full [OF small_horizons(4)])
  note inst = C6_zero_principal [of b p q]
  from inst b have 1: "monthlyPayment_basic b = 0" by blast
  from inst p have 2: "monthlyPayment p = 0" and 3: "\<forall>d\<in>set (yearlyData p). loanBalance d = 0"
    by blast+
  from inst q have 4: "monthlyPayment_full q = 0"
    and 5: "\<forall>d\<in>set (yearlyData_full q). loanBalance d = 0"
    by blast+
  from 3 have 6: "map loanBalance (yearlyData p) = [0]" unfolding yp by simp
  from 5 have 7: "map loanBalance (yearlyData_full q) = [0, 0]" unfolding yq by simp
  from b p q 1 2 4 6 7 show ?thesis unfolding b_def p_def q_def by blast
qed

subsection \<open>C7: the cumulative figures do not decrease\<close>


subsection \<open>C5: capitalising deferral\<close>

text \<open>
  Claim C5, as stated, fails at a zero interest rate: capitalising twelve months (eleven in
  the full variant) of a zero interest leaves the amortised amount at the principal, and
  the payment at 0.
\<close>

theorem C5_zero_rate_counterexample:
  "0 < principal (clamp (small_deferral 0 12))
   \<and> 1 \<le> deferralMonths (clamp (small_deferral 0 12))
   \<and> deferralType (clamp (small_deferral 0 12)) = Complete
   \<and> principalAfterDeferral (clamp (small_deferral 0 12))
       = principalAfterDeferral ((clamp (small_deferral 0 12))\<lparr>deferralMonths := 0\<rparr>)
   \<and> monthlyPayment (clamp (small_deferral 0 12))
       = monthlyPayment ((clamp (small_deferral 0 12))\<lparr>deferralMonths := 0\<rparr>)
   \<and> 0 < principal (clamp_full (small_full 0 11))
   \<and> 1 \<le> deferralMonths (clamp_full (small_full 0 11))
   \<and> deferralType (clamp_full (small_full 0 11)) = Complete
   \<and> principalAfterDeferral (clamp_full (small_full 0 11))
       = principalAfterDeferral ((clamp_full (small_full 0 11))\<lparr>deferralMonths := 0\<rparr>)
   \<and> monthlyPayment_full (clamp_full (small_full 0 11))
       = monthlyPayment_full ((clamp_full (small_full 0 11))\<lparr>deferralMonths := 0\<rparr>)"
  by (simp add: clamp_def clamp_full_def small_deferral_def small_full_def principal_def
      principalAfterDeferral_eq monthlyRate_def monthlyPayment_def monthlyPayment_full_def)

text \<open>
  Claim C5, amended. For every parameter set after clamping with a principal of at least
  one currency unit, at least one month of deferral and an interest rate of at least 0.1
  percent (one step of the rate field), capitalising deferral gives a strictly larger
  amortised amount and a strictly larger monthly payment than the same parameters with no
  deferral. At a zero interest rate the amortised amount is the same with and without
  deferral, and both payments are 0.
\<close>

theorem C5_capitalising_deferral:
  "(1 \<le> principal (clamp p) \<and> 1 \<le> deferralMonths (clamp p)
      \<and> deferralType (clamp p) = Complete \<and> 0.1 \<le> interestRate (clamp p) \<longrightarrow>
      principalAfterDeferral ((clamp p)\<lparr>deferralMonths := 0\<rparr>) < principalAfterDeferral (clamp p)
      \<and> monthlyPayment ((clamp p)\<lparr>deferralMonths := 0\<rparr>) < monthlyPayment (clamp p))
   \<and> (interestRate (clamp p) = 0 \<longrightarrow>
      principalAfterDeferral ((clamp p)\<lparr>deferralMonths := 0\<rparr>) = principalAfterDeferral (clamp p)
      \<and> monthlyPayment ((clamp p)\<lparr>deferralMonths := 0\<rparr>) = 0
      \<and> monthlyPayment (clamp p) = 0)
   \<and> (1 \<le> principal (clamp_full q) \<and> 1 \<le> deferralMonths (clamp_full q)
      \<and> deferralType (clamp_full q) = Complete \<and> 0.1 \<le> interestRate (clamp_full q) \<longrightarrow>
      principalAfterDeferral ((clamp_full q)\<lparr>deferralMonths := 0\<rparr>)
        < principalAfterDeferral (clamp_full q)
      \<and> monthlyPayment_full ((clamp_full q)\<lparr>deferralMonths := 0\<rparr>)
        < monthlyPayment_full (clamp_full q))
   \<and> (interestRate (clamp_full q) = 0 \<longrightarrow>
      principalAfterDeferral ((clamp_full q)\<lparr>deferralMonths := 0\<rparr>)
        = principalAfterDeferral (clamp_full q)
      \<and> monthlyPayment_full ((clamp_full q)\<lparr>deferralMonths := 0\<rparr>) = 0
      \<and> monthlyPayment_full (clamp_full q) = 0)"
proof -
  define c where "c = clamp p"
  define c' where "c' = clamp_full q"
  have yrs: "1 \<le> loanTermYears c" "1 \<le> loanTermYears c'"
    unfolding c_def c'_def by (rule clamp_facts(5), rule clamp_full_facts(5))
  have strict: "principalAfterDeferral (c\<lparr>deferralMonths := 0\<rparr>) < principalAfterDeferral c
      \<and> monthlyPayment (c\<lparr>deferralMonths := 0\<rparr>) < monthlyPayment c"
    if "1 \<le> principal c \<and> 1 \<le> deferralMonths c \<and> deferralType c = Complete
      \<and> 0.1 \<le> interestRate c"
  proof -
    from that yrs have h: "0 < principal c" "1 \<le> deferralMonths c" "deferralType c = Complete"
      "0 < interestRate c" "1 \<le> loanTermYears c"
      by simp_all
    from capitalised_base_larger [OF h(1-4)] capitalised_payment_larger [OF h]
    show ?thesis by simp
  qed
  have strict_full: "principalAfterDeferral (c'\<lparr>deferralMonths := 0\<rparr>) < principalAfterDeferral c'
      \<and> monthlyPayment_full (c'\<lparr>deferralMonths := 0\<rparr>) < monthlyPayment_full c'"
    if "1 \<le> principal c' \<and> 1 \<le> deferralMonths c' \<and> deferralType c' = Complete
      \<and> 0.1 \<le> interestRate c'"
  proof -
    from that yrs have h: "0 < principal c'" "1 \<le> deferralMonths c'" "deferralType c' = Complete"
      "0 < interestRate c'" "1 \<le> loanTermYears c'"
      by simp_all
    from capitalised_base_larger [OF h(1-4)] capitalised_payment_full_larger [OF h]
    show ?thesis by simp
  qed
  have zero: "principalAfterDeferral (c\<lparr>deferralMonths := 0\<rparr>) = principalAfterDeferral c
      \<and> monthlyPayment (c\<lparr>deferralMonths := 0\<rparr>) = 0 \<and> monthlyPayment c = 0"
    if "interestRate c = 0"
    using that by (simp add: principalAfterDeferral_eq monthlyPayment_def monthlyRate_def principal_def)
  have zero_full: "principalAfterDeferral (c'\<lparr>deferralMonths := 0\<rparr>) = principalAfterDeferral c'
      \<and> monthlyPayment_full (c'\<lparr>deferralMonths := 0\<rparr>) = 0 \<and> monthlyPayment_full c' = 0"
    if "interestRate c' = 0"
    using that
    by (simp add: principalAfterDeferral_eq monthlyPayment_full_def monthlyRate_def principal_def)
  from strict strict_full zero zero_full show ?thesis unfolding c_def c'_def by blast
qed

theorem C5_capitalising_deferral_witness:
  "1 \<le> principal (clamp (small_deferral 12 6))
   \<and> 1 \<le> deferralMonths (clamp (small_deferral 12 6))
   \<and> deferralType (clamp (small_deferral 12 6)) = Complete
   \<and> 0.1 \<le> interestRate (clamp (small_deferral 12 6))
   \<and> principalAfterDeferral ((clamp (small_deferral 12 6))\<lparr>deferralMonths := 0\<rparr>)
       < principalAfterDeferral (clamp (small_deferral 12 6))
   \<and> monthlyPayment ((clamp (small_deferral 12 6))\<lparr>deferralMonths := 0\<rparr>)
       < monthlyPayment (clamp (small_deferral 12 6))
   \<and> interestRate (clamp (small_deferral 0 6)) = 0
   \<and> principalAfterDeferral ((clamp (small_deferral 0 6))\<lparr>deferralMonths := 0\<rparr>)
       = principalAfterDeferral (clamp (small_deferral 0 6))
   \<and> monthlyPayment (clamp (small_deferral 0 6)) = 0
   \<and> 1 \<le> principal (clamp_full (small_full 12 6))
   \<and> 1 \<le> deferralMonths (clamp_full (small_full 12 6))
   \<and> deferralType (clamp_full (small_full 12 6)) = Complete
   \<and> 0.1 \<le> interestRate (clamp_full (small_full 12 6))
   \<and> principalAfterDeferral ((clamp_full (small_full 12 6))\<lparr>deferralMonths := 0\<rparr>)
       < principalAfterDeferral (clamp_full (small_full 12 6))
   \<and> monthlyPayment_full ((clamp_full (small_full 12 6))\<lparr>deferralMonths := 0\<rparr>)
       < monthlyPayment_full (clamp_full (small_full 12 6))
   \<and> interestRate (clamp_full (small_full 0 6)) = 0
   \<and> principalAfterDeferral ((clamp_full (small_full 0 6))\<lparr>deferralMonths := 0\<rparr>)
       = principalAfterDeferral (clamp_full (small_full 0 6))
   \<and> monthlyPayment_full (clamp_full (small_full 0 6)) = 0"
proof -
  define p where "p = clamp (small_deferral 12 6)"
  define q where "q = clamp_full (small_full 12 6)"
  define p0 where "p0 = clamp (small_deferral 0 6)"
  define q0 where "q0 = clamp_full (small_full 0 6)"
  have p: "1 \<le> principal p \<and> 1 \<le> deferralMonths p \<and> deferralType p = Complete
      \<and> 0.1 \<le> interestRate p"
    by (simp add: p_def clamp_def small_deferral_def principal_def Let_def)
  have q: "1 \<le> principal q \<and> 1 \<le> deferralMonths q \<and> deferralType q = Complete
      \<and> 0.1 \<le> interestRate q"
    by (simp add: q_def clamp_full_def small_full_def principal_def Let_def)
  have z: "interestRate p0 = 0" "interestRate q0 = 0"
    by (simp_all add: p0_def q0_def clamp_def clamp_full_def small_deferral_def small_full_def
        Let_def)
  note strict = C5_capitalising_deferral [of "small_deferral 12 6" "small_full 12 6",
      folded p_def q_def]
  note zero = C5_capitalising_deferral [of "small_deferral 0 6" "small_full 0 6",
      folded p0_def q0_def]
  from strict zero p q z show ?thesis unfolding p_def q_def p0_def q0_def by blast
qed

subsection \<open>C3: the loan balance during repayment\<close>






end
